theory Spec2Isabelle
  imports Complex_Main
begin

section \<open>Values of the numeric arrays\<close>

text \<open>
  The program computes on NumPy arrays and PyTorch tensors of floating-point numbers.
  An element is modelled as a real number or one of the three special values of IEEE
  arithmetic, so that a division by zero is a value of the model as it is a value (and
  not an exception) of the program. In the operations of this section rounding, overflow
  to infinity and the sign of zero are not modelled: a finite result is the exact real
  result, and a zero divisor counts as positive zero (the only zero that \<open>1 - alpha\<close>
  produces). The operations with rounding, which the round trip of compositing and
  recovery depends on, are defined further down.
\<close>

datatype fval = Fin real | PInf | NInf | NaN

fun fneg :: "fval \<Rightarrow> fval" where
  "fneg (Fin x) = Fin (- x)"
| "fneg PInf = NInf"
| "fneg NInf = PInf"
| "fneg NaN = NaN"

fun fadd :: "fval \<Rightarrow> fval \<Rightarrow> fval" where
  "fadd (Fin x) (Fin y) = Fin (x + y)"
| "fadd NaN _ = NaN"
| "fadd _ NaN = NaN"
| "fadd PInf NInf = NaN"
| "fadd NInf PInf = NaN"
| "fadd PInf _ = PInf"
| "fadd _ PInf = PInf"
| "fadd NInf _ = NInf"
| "fadd _ NInf = NInf"

definition fsub :: "fval \<Rightarrow> fval \<Rightarrow> fval" where
  "fsub x y = fadd x (fneg y)"

text \<open>The sign of an infinite product or quotient: \<open>inf_of True\<close> is \<open>+inf\<close>.\<close>

definition inf_of :: "bool \<Rightarrow> fval" where
  "inf_of positive = (if positive then PInf else NInf)"

fun fmul :: "fval \<Rightarrow> fval \<Rightarrow> fval" where
  "fmul (Fin x) (Fin y) = Fin (x * y)"
| "fmul NaN _ = NaN"
| "fmul _ NaN = NaN"
| "fmul PInf (Fin y) = (if y = 0 then NaN else inf_of (0 < y))"
| "fmul NInf (Fin y) = (if y = 0 then NaN else inf_of (y < 0))"
| "fmul (Fin x) PInf = (if x = 0 then NaN else inf_of (0 < x))"
| "fmul (Fin x) NInf = (if x = 0 then NaN else inf_of (x < 0))"
| "fmul PInf PInf = PInf"
| "fmul NInf NInf = PInf"
| "fmul PInf NInf = NInf"
| "fmul NInf PInf = NInf"

fun fdiv :: "fval \<Rightarrow> fval \<Rightarrow> fval" where
  "fdiv (Fin x) (Fin y) =
     (if y \<noteq> 0 then Fin (x / y) else if x = 0 then NaN else inf_of (0 < x))"
| "fdiv NaN _ = NaN"
| "fdiv _ NaN = NaN"
| "fdiv (Fin x) PInf = Fin 0"
| "fdiv (Fin x) NInf = Fin 0"
| "fdiv PInf (Fin y) = inf_of (0 \<le> y)"
| "fdiv NInf (Fin y) = inf_of (y < 0)"
| "fdiv PInf PInf = NaN"
| "fdiv PInf NInf = NaN"
| "fdiv NInf PInf = NaN"
| "fdiv NInf NInf = NaN"

text \<open>
  \<open>np.clip(x, lo, hi)\<close> and \<open>torch.clamp(x, lo, hi)\<close> on one element:
  \<open>minimum(maximum(x, lo), hi)\<close>, a NaN staying a NaN.
\<close>

fun fclip :: "real \<Rightarrow> real \<Rightarrow> fval \<Rightarrow> fval" where
  "fclip lo hi (Fin x) = Fin (min (max x lo) hi)"
| "fclip lo hi PInf = Fin hi"
| "fclip lo hi NInf = Fin (min lo hi)"
| "fclip lo hi NaN = NaN"

text \<open>
  Arithmetic on 8-bit unsigned elements wraps around; a conversion of a float to an
  8-bit unsigned integer truncates towards zero first.
\<close>

fun wrap_u8 :: "fval \<Rightarrow> fval" where
  "wrap_u8 (Fin x) = Fin (of_int (\<lfloor>x\<rfloor> mod 256))"
| "wrap_u8 v = Fin 0"

fun trunc_u8 :: "fval \<Rightarrow> fval" where
  "trunc_u8 (Fin x) = Fin (of_int ((if 0 \<le> x then \<lfloor>x\<rfloor> else \<lceil>x\<rceil>) mod 256))"
| "trunc_u8 v = Fin 0"

section \<open>Arrays\<close>

text \<open>
  An array is its element type tag, its shape and its elements in row-major (C) order,
  as a contiguous NumPy array or PyTorch tensor stores them.
\<close>

datatype dtype = UInt8 | Float | ComplexFloat

record 'a ndarray =
  dtype :: dtype
  shape :: "nat list"
  data :: "'a list"

definition wf :: "'a ndarray \<Rightarrow> bool" where
  "wf a = (length (data a) = prod_list (shape a))"

text \<open>All the multi-indices of a shape, in row-major order.\<close>

fun indices :: "nat list \<Rightarrow> nat list list" where
  "indices [] = [[]]"
| "indices (n # ns) = map (\<lambda>(i, ix). i # ix) (List.product [0..<n] (indices ns))"

text \<open>The position of a multi-index in the row-major data (\<open>np.ravel_multi_index\<close>).\<close>

fun ravel :: "nat list \<Rightarrow> nat list \<Rightarrow> nat" where
  "ravel (n # ns) (i # ix) = i * prod_list ns + ravel ns ix"
| "ravel _ _ = 0"

fun valid_index :: "nat list \<Rightarrow> nat list \<Rightarrow> bool" where
  "valid_index [] [] = True"
| "valid_index (n # ns) (i # ix) = (i < n \<and> valid_index ns ix)"
| "valid_index _ _ = False"

definition item :: "'a ndarray \<Rightarrow> nat list \<Rightarrow> 'a" where
  "item a ix = data a ! ravel (shape a) ix"

text \<open>The array of a shape whose element at every multi-index is given by a function.\<close>

definition tabulate :: "dtype \<Rightarrow> nat list \<Rightarrow> (nat list \<Rightarrow> 'a) \<Rightarrow> 'a ndarray" where
  "tabulate dt s f = \<lparr>dtype = dt, shape = s, data = map f (indices s)\<rparr>"


text \<open>
  Broadcasting of two shapes, aligned at the last axis: two extents go together when they
  are equal or one of them is 1.
\<close>

fun broadcast_rev :: "nat list \<Rightarrow> nat list \<Rightarrow> nat list option" where
  "broadcast_rev [] ys = Some ys"
| "broadcast_rev xs [] = Some xs"
| "broadcast_rev (x # xs) (y # ys) =
     (if x = y \<or> y = 1 then map_option ((#) x) (broadcast_rev xs ys)
      else if x = 1 then map_option ((#) y) (broadcast_rev xs ys)
      else None)"

definition broadcast_shapes :: "nat list \<Rightarrow> nat list \<Rightarrow> nat list option" where
  "broadcast_shapes s1 s2 = map_option rev (broadcast_rev (rev s1) (rev s2))"

text \<open>
  The multi-index of an operand of shape \<open>s\<close> that supplies the element of the broadcast
  result at \<open>ix\<close>: the leading axes the operand lacks are dropped, an axis of extent 1
  is read at 0.
\<close>

definition bindex :: "nat list \<Rightarrow> nat list \<Rightarrow> nat list" where
  "bindex s ix = map2 (\<lambda>n i. if n = 1 then 0 else i) s (drop (length ix - length s) ix)"

section \<open>Errors and Python values\<close>

datatype error =
    TypeError string
  | AssertionError string
  | ValueError string
  | IndexError string
  | AttributeError string
  | RuntimeError string
  | EinopsError string

definition bind :: "error + 'a \<Rightarrow> ('a \<Rightarrow> error + 'b) \<Rightarrow> error + 'b" where
  "bind m f = (case m of Inl e \<Rightarrow> Inl e | Inr x \<Rightarrow> f x)"

text \<open>
  A value that reaches the program is a NumPy array, a PyTorch tensor, or some other
  Python object, of which only the name of its type matters.
\<close>

datatype 'a pyval = NumpyArray "'a ndarray" | TorchTensor "'a ndarray" | PyObject string

fun is_numpy_array :: "'a pyval \<Rightarrow> bool" where
  "is_numpy_array (NumpyArray a) = True"
| "is_numpy_array _ = False"

fun is_torch_tensor :: "'a pyval \<Rightarrow> bool" where
  "is_torch_tensor (TorchTensor a) = True"
| "is_torch_tensor _ = False"

fun type_name :: "'a pyval \<Rightarrow> string" where
  "type_name (NumpyArray a) = ''<class 'numpy.ndarray'>''"
| "type_name (TorchTensor a) = ''<class 'torch.Tensor'>''"
| "type_name (PyObject t) = t"

text \<open>A method of the array types, called on a value: other objects do not have it.\<close>

fun call_method :: "('a ndarray \<Rightarrow> error + 'b ndarray) \<Rightarrow> 'a pyval \<Rightarrow> error + 'b pyval" where
  "call_method f (NumpyArray a) = bind (f a) (\<lambda>r. Inr (NumpyArray r))"
| "call_method f (TorchTensor a) = bind (f a) (\<lambda>r. Inr (TorchTensor r))"
| "call_method f (PyObject t) = Inl (AttributeError t)"

text \<open>
  A binary operator on two values. The program only ever combines two arrays of one
  library (\<open>_like\<close> sees to it); any other pair is a type error of the model.
\<close>

fun call_operator ::
  "('a ndarray \<Rightarrow> 'b ndarray \<Rightarrow> error + 'c ndarray) \<Rightarrow> 'a pyval \<Rightarrow> 'b pyval \<Rightarrow> error + 'c pyval" where
  "call_operator f (NumpyArray a) (NumpyArray b) = bind (f a b) (\<lambda>r. Inr (NumpyArray r))"
| "call_operator f (TorchTensor a) (TorchTensor b) = bind (f a b) (\<lambda>r. Inr (TorchTensor r))"
| "call_operator f x y = Inl (TypeError ''unsupported operand type(s)'')"

section \<open>Array operations of NumPy and PyTorch\<close>

text \<open>The element type of the result of arithmetic on two arrays.\<close>

definition promote :: "dtype \<Rightarrow> dtype \<Rightarrow> dtype" where
  "promote a b =
     (if a = ComplexFloat \<or> b = ComplexFloat then ComplexFloat
      else if a = Float \<or> b = Float then Float else UInt8)"

definition store :: "dtype \<Rightarrow> fval \<Rightarrow> fval" where
  "store dt v = (if dt = UInt8 then wrap_u8 v else v)"

definition broadcast2 ::
  "dtype \<Rightarrow> ('a \<Rightarrow> 'b \<Rightarrow> 'c) \<Rightarrow> 'a ndarray \<Rightarrow> 'b ndarray \<Rightarrow> error + 'c ndarray" where
  "broadcast2 dt f a b =
     (case broadcast_shapes (shape a) (shape b) of
        None \<Rightarrow> Inl (ValueError ''operands could not be broadcast together'')
      | Some s \<Rightarrow>
          Inr (tabulate dt s (\<lambda>ix. f (item a (bindex (shape a) ix)) (item b (bindex (shape b) ix)))))"

text \<open>\<open>a - b\<close> and \<open>a * b\<close> on arrays (\<open>f\<close> is the operation on one element).\<close>

definition arith :: "(fval \<Rightarrow> fval \<Rightarrow> fval) \<Rightarrow> fval ndarray \<Rightarrow> fval ndarray \<Rightarrow> error + fval ndarray" where
  "arith f a b =
     (let dt = promote (dtype a) (dtype b) in broadcast2 dt (\<lambda>x y. store dt (f x y)) a b)"

text \<open>\<open>a / b\<close> on arrays: true division, whose result is never an integer array.\<close>

definition true_divide :: "fval ndarray \<Rightarrow> fval ndarray \<Rightarrow> error + fval ndarray" where
  "true_divide a b = broadcast2 (promote (promote (dtype a) (dtype b)) Float) fdiv a b"

text \<open>An operation on every element, with the element type of the result.\<close>

definition map_array :: "dtype \<Rightarrow> ('a \<Rightarrow> 'b) \<Rightarrow> 'a ndarray \<Rightarrow> 'b ndarray" where
  "map_array dt f a = \<lparr>dtype = dt, shape = shape a, data = map f (data a)\<rparr>"

text \<open>\<open>a / k\<close> for a Python number \<open>k\<close>.\<close>

definition divide_by :: "real \<Rightarrow> fval ndarray \<Rightarrow> error + fval ndarray" where
  "divide_by k a = Inr (map_array (promote (dtype a) Float) (\<lambda>v. fdiv v (Fin k)) a)"

text \<open>\<open>k - a\<close> for a Python integer \<open>k\<close>: the array keeps its element type.\<close>

definition int_minus :: "int \<Rightarrow> fval ndarray \<Rightarrow> error + fval ndarray" where
  "int_minus k a =
     Inr (map_array (dtype a) (\<lambda>v. store (dtype a) (fsub (Fin (of_int k)) v)) a)"

text \<open>\<open>a - k\<close> for a Python float \<open>k\<close>.\<close>

definition minus_float :: "real \<Rightarrow> fval ndarray \<Rightarrow> error + fval ndarray" where
  "minus_float k a = Inr (map_array (promote (dtype a) Float) (\<lambda>v. fsub v (Fin k)) a)"

text \<open>
  \<open>a.mean(0)\<close>: the mean along the first axis. The mean of no frames is 0/0.
  PyTorch refuses to average an integer tensor.
\<close>

definition mean0 :: "fval ndarray \<Rightarrow> error + fval ndarray" where
  "mean0 a =
     (case shape a of
        [] \<Rightarrow> Inl (IndexError ''axis 0 is out of bounds for array of dimension 0'')
      | t # rest \<Rightarrow>
          Inr (tabulate (promote (dtype a) Float) rest
                 (\<lambda>ix. fdiv (foldl fadd (Fin 0) (map (\<lambda>k. item a (k # ix)) [0..<t]))
                             (Fin (real t)))))"

fun mean_axis0 :: "fval pyval \<Rightarrow> error + fval pyval" where
  "mean_axis0 (TorchTensor a) =
     (if dtype a = UInt8 then Inl (RuntimeError ''mean(): could not infer output dtype'')
      else bind (mean0 a) (\<lambda>r. Inr (TorchTensor r)))"
| "mean_axis0 x = call_method mean0 x"

text \<open>
  \<open>a[:, :, lo:hi]\<close>: a slice of the third axis; \<open>hi\<close> is \<open>None\<close> for an open slice.
\<close>

definition slice_axis2 :: "nat \<Rightarrow> nat option \<Rightarrow> 'a ndarray \<Rightarrow> error + 'a ndarray" where
  "slice_axis2 lo hi a =
     (case shape a of
        h # w # c # rest \<Rightarrow>
          (let start = min lo c;
               stop = (case hi of None \<Rightarrow> c | Some k \<Rightarrow> min k c)
           in Inr (tabulate (dtype a) (h # w # (stop - start) # rest)
                     (\<lambda>ix. item a (take 2 ix @ [ix ! 2 + start] @ drop 3 ix))))
      | _ \<Rightarrow> Inl (IndexError ''too many indices for array''))"

text \<open>\<open>np.roll\<close> and \<open>torch.roll\<close> along one axis, and along a pair of axes.\<close>

definition roll_axis :: "nat \<Rightarrow> int \<Rightarrow> 'a ndarray \<Rightarrow> 'a ndarray" where
  "roll_axis d k a =
     tabulate (dtype a) (shape a)
       (\<lambda>ix. item a (ix[d := nat ((int (ix ! d) - k) mod int (shape a ! d))]))"

definition roll :: "int \<times> int \<Rightarrow> nat \<times> nat \<Rightarrow> 'a ndarray \<Rightarrow> error + 'a ndarray" where
  "roll shift dims a =
     (if fst dims < length (shape a) \<and> snd dims < length (shape a)
      then Inr (roll_axis (snd dims) (snd shift) (roll_axis (fst dims) (fst shift) a))
      else Inl (IndexError ''axis is out of bounds''))"

text \<open>\<open>fftshift\<close>: every axis of extent \<open>n\<close> rolled by \<open>n // 2\<close>.\<close>

definition fftshift :: "'a ndarray \<Rightarrow> error + 'a ndarray" where
  "fftshift a =
     Inr (tabulate (dtype a) (shape a)
            (\<lambda>ix. item a (map2 (\<lambda>n i. (i + (n - n div 2)) mod n) (shape a) ix)))"

text \<open>\<open>a.conj()\<close> and \<open>a.real\<close> on a complex array.\<close>

definition conj :: "complex ndarray \<Rightarrow> error + complex ndarray" where
  "conj a = Inr (map_array (dtype a) cnj a)"

definition real_part :: "complex ndarray \<Rightarrow> error + real ndarray" where
  "real_part a = Inr (map_array Float Re a)"

definition clip :: "real \<Rightarrow> real \<Rightarrow> fval ndarray \<Rightarrow> error + fval ndarray" where
  "clip lo hi a = Inr (map_array (dtype a) (fclip lo hi) a)"

text \<open>\<open>torch.tensor(x).to(device, dtype)\<close>: the conversion of the elements.\<close>

definition astype :: "dtype \<Rightarrow> fval ndarray \<Rightarrow> fval ndarray" where
  "astype dt a = map_array dt (if dt = UInt8 then trunc_u8 else (\<lambda>v. v)) a"

text \<open>\<open>einops.rearrange\<close> with the two patterns of the program.\<close>

definition rearrange_TCHW_THWC :: "'a ndarray \<Rightarrow> error + 'a ndarray" where
  "rearrange_TCHW_THWC a =
     (case shape a of
        [t, c, h, w] \<Rightarrow>
          Inr (tabulate (dtype a) [t, h, w, c] (\<lambda>ix. item a [ix ! 0, ix ! 3, ix ! 1, ix ! 2]))
      | _ \<Rightarrow> Inl (EinopsError ''Wrong shape: expected 4 dims''))"

definition rearrange_THWC_TCHW :: "'a ndarray \<Rightarrow> error + 'a ndarray" where
  "rearrange_THWC_TCHW a =
     (case shape a of
        [t, h, w, c] \<Rightarrow>
          Inr (tabulate (dtype a) [t, c, h, w] (\<lambda>ix. item a [ix ! 0, ix ! 2, ix ! 3, ix ! 1]))
      | _ \<Rightarrow> Inl (EinopsError ''Wrong shape: expected 4 dims''))"

text \<open>\<open>np.argmax\<close>: the first position of the greatest element of the flattened array.\<close>

fun argmax_scan :: "nat \<Rightarrow> real \<Rightarrow> nat \<Rightarrow> real list \<Rightarrow> nat" where
  "argmax_scan best v k [] = best"
| "argmax_scan best v k (x # xs) =
     (if v < x then argmax_scan k x (Suc k) xs else argmax_scan best v (Suc k) xs)"

definition argmax :: "real ndarray \<Rightarrow> error + nat" where
  "argmax a =
     (case data a of
        [] \<Rightarrow> Inl (ValueError ''attempt to get argmax of an empty sequence'')
      | x # xs \<Rightarrow> Inr (argmax_scan 0 x 1 xs))"

fun unravel_index :: "nat \<Rightarrow> nat list \<Rightarrow> nat list" where
  "unravel_index k [] = []"
| "unravel_index k (n # ns) = (k div prod_list ns) # unravel_index (k mod prod_list ns) ns"

text \<open>\<open>t[i]\<close> on a tuple.\<close>

definition subscript :: "'a list \<Rightarrow> nat \<Rightarrow> error + 'a" where
  "subscript xs i = (if i < length xs then Inr (xs ! i) else Inl (IndexError ''tuple index out of range''))"

section \<open>The library routines the program calls\<close>

text \<open>
  The Fourier transforms of NumPy and PyTorch, the watermark file and the image routines
  of the \<open>rp\<close> package are not part of the repository: the program is modelled over any
  implementation of them, each of which may raise.
\<close>

record library =
  np_fft2 :: "fval ndarray \<Rightarrow> error + complex ndarray"
  torch_fft2 :: "fval ndarray \<Rightarrow> error + complex ndarray"
  np_ifft2 :: "complex ndarray \<Rightarrow> error + complex ndarray"
  torch_ifft2 :: "complex ndarray \<Rightarrow> error + complex ndarray"
  load_image :: "error + fval ndarray"
  crop_image :: "fval ndarray \<Rightarrow> nat \<Rightarrow> nat \<Rightarrow> error + fval ndarray"
  blend_images :: "real \<Rightarrow> fval ndarray \<Rightarrow> error + fval ndarray"
  cv_gauss_blur :: "fval ndarray \<Rightarrow> real \<Rightarrow> error + fval ndarray"
  as_grayscale_image :: "fval ndarray \<Rightarrow> error + fval ndarray"

text \<open>
  The predicates of \<open>rp\<close> that the program asserts, read off an array: an RGBA image
  has three axes, the last of extent 4; a matrix has two axes.
\<close>

definition is_rgba_image :: "'a ndarray \<Rightarrow> bool" where
  "is_rgba_image a = (length (shape a) = 3 \<and> shape a ! 2 = 4)"

definition is_float_image :: "'a ndarray \<Rightarrow> bool" where
  "is_float_image a = (dtype a = Float)"

fun is_a_matrix :: "'a pyval \<Rightarrow> bool" where
  "is_a_matrix (NumpyArray a) = (length (shape a) = 2)"
| "is_a_matrix (TorchTensor a) = (length (shape a) = 2)"
| "is_a_matrix (PyObject t) = False"

fun as_numpy_array :: "'a pyval \<Rightarrow> error + 'a ndarray" where
  "as_numpy_array (NumpyArray a) = Inr a"
| "as_numpy_array (TorchTensor a) = Inr a"
| "as_numpy_array (PyObject t) = Inl (TypeError t)"

section \<open>The program\<close>

subsection \<open>The format adapter\<close>

text \<open>The error of every adapter function, from the name of the type of its argument.\<close>

definition unsupported :: "string \<Rightarrow> error" where
  "unsupported t = TypeError (''Unsupported input type: '' @ t)"

fun is_uint8' :: "'a pyval \<Rightarrow> error + bool" where
  "is_uint8' (NumpyArray a) = Inr (dtype a = UInt8)"
| "is_uint8' (TorchTensor a) = Inr (dtype a = UInt8)"
| "is_uint8' (PyObject t) = Inl (unsupported t)"

fun fft2' :: "library \<Rightarrow> fval pyval \<Rightarrow> error + complex pyval" where
  "fft2' lib (NumpyArray a) = bind (np_fft2 lib a) (\<lambda>r. Inr (NumpyArray r))"
| "fft2' lib (TorchTensor a) = bind (torch_fft2 lib a) (\<lambda>r. Inr (TorchTensor r))"
| "fft2' lib (PyObject t) = Inl (unsupported t)"

fun ifft2' :: "library \<Rightarrow> complex pyval \<Rightarrow> error + complex pyval" where
  "ifft2' lib (NumpyArray a) = bind (np_ifft2 lib a) (\<lambda>r. Inr (NumpyArray r))"
| "ifft2' lib (TorchTensor a) = bind (torch_ifft2 lib a) (\<lambda>r. Inr (TorchTensor r))"
| "ifft2' lib (PyObject t) = Inl (unsupported t)"

fun fftshift' :: "'a pyval \<Rightarrow> error + 'a pyval" where
  "fftshift' (NumpyArray a) = bind (fftshift a) (\<lambda>r. Inr (NumpyArray r))"
| "fftshift' (TorchTensor a) = bind (fftshift a) (\<lambda>r. Inr (TorchTensor r))"
| "fftshift' (PyObject t) = Inl (unsupported t)"

fun clip' :: "fval pyval \<Rightarrow> real \<Rightarrow> real \<Rightarrow> error + fval pyval" where
  "clip' (NumpyArray a) min_val max_val = bind (clip min_val max_val a) (\<lambda>r. Inr (NumpyArray r))"
| "clip' (TorchTensor a) min_val max_val = bind (clip min_val max_val a) (\<lambda>r. Inr (TorchTensor r))"
| "clip' (PyObject t) min_val max_val = Inl (unsupported t)"

fun roll' :: "'a pyval \<Rightarrow> int \<times> int \<Rightarrow> nat \<times> nat \<Rightarrow> error + 'a pyval" where
  "roll' (NumpyArray a) shift dims = bind (roll shift dims a) (\<lambda>r. Inr (NumpyArray r))"
| "roll' (TorchTensor a) shift dims = bind (roll shift dims a) (\<lambda>r. Inr (TorchTensor r))"
| "roll' (PyObject t) shift dims = Inl (unsupported t)"

fun default_form' :: "'a pyval \<Rightarrow> error + string" where
  "default_form' (NumpyArray a) = Inr ''THWC''"
| "default_form' (TorchTensor a) = Inr ''TCHW''"
| "default_form' (PyObject t) = Inl (unsupported t)"

fun like' :: "fval pyval \<Rightarrow> 'b pyval \<Rightarrow> error + fval pyval" where
  "like' (NumpyArray x) (NumpyArray target) = Inr (NumpyArray x)"
| "like' (TorchTensor x) (TorchTensor target) = Inr (TorchTensor x)"
| "like' (TorchTensor x) (NumpyArray target) = Inr (NumpyArray x)"
| "like' (NumpyArray x) (TorchTensor target) = Inr (TorchTensor (astype (dtype target) x))"
| "like' x target =
     Inl (TypeError (''Unsupported input types: '' @ type_name x @ '' '' @ type_name target))"

subsection \<open>The watermark asset\<close>

text \<open>
  The function is memoized; the file it reads is fixed, so the model reads it each time.
\<close>

definition get_watermark_image' :: "library \<Rightarrow> error + fval ndarray" where
  "get_watermark_image' lib =
     bind (load_image lib) (\<lambda>watermark.
     if \<not> is_rgba_image watermark
       then Inl (AssertionError ''Without alpha, the watermark is useless'')
     else if \<not> is_float_image watermark
       then Inl (AssertionError ''Watermark should ideally be saved with floating-point precision'')
     else Inr watermark)"

subsection \<open>Background recovery\<close>

definition recover_background :: "fval pyval \<Rightarrow> fval pyval \<Rightarrow> error + fval pyval" where
  "recover_background composite_images rgba_watermark =
     bind (call_method (slice_axis2 0 (Some 3)) rgba_watermark) (\<lambda>watermark_rgb.
     bind (call_method (slice_axis2 3 None) rgba_watermark) (\<lambda>watermark_alpha.
     bind (call_operator (arith fmul) watermark_alpha watermark_rgb) (\<lambda>overlay.
     bind (call_operator (arith fsub) composite_images overlay) (\<lambda>numerator.
     bind (call_method (int_minus 1) watermark_alpha) (\<lambda>denominator.
     bind (call_operator true_divide numerator denominator) (\<lambda>background.
     clip' background 0 1))))))"

text \<open>
  The formula of the recovery on one element, in the arithmetic of the elements: the
  composite value, the watermark colour and the watermark alpha of one pixel and channel.
\<close>

definition inverse_blend :: "fval \<Rightarrow> fval \<Rightarrow> fval \<Rightarrow> fval" where
  "inverse_blend c rgb alpha = fclip 0 1 (fdiv (fsub c (fmul alpha rgb)) (fsub (Fin 1) alpha))"

text \<open>
  The array that the recovery computes from a video of shape \<open>(T, H, W, 3)\<close> and a
  watermark of shape \<open>(H, W, 4)\<close>.
\<close>

definition recovered :: "fval ndarray \<Rightarrow> fval ndarray \<Rightarrow> fval ndarray" where
  "recovered v wm =
     tabulate (promote (dtype v) Float) (shape v)
       (\<lambda>ix. inverse_blend (item v ix) (item wm [ix ! 1, ix ! 2, ix ! 3])
                (item wm [ix ! 1, ix ! 2, 3]))"

definition finite_val :: "fval \<Rightarrow> bool" where
  "finite_val v = (case v of Fin x \<Rightarrow> True | _ \<Rightarrow> False)"

definition in_unit :: "fval \<Rightarrow> bool" where
  "in_unit v = (case v of Fin x \<Rightarrow> 0 \<le> x \<and> x \<le> 1 | _ \<Rightarrow> False)"

text \<open>
  A watermark that the recovery can invert on frames of height \<open>H\<close> and width \<open>W\<close>: a
  floating-point RGBA image of that size whose values are numbers and whose alpha is less
  than 1 at every pixel.
\<close>

definition usable_watermark :: "nat \<Rightarrow> nat \<Rightarrow> fval ndarray \<Rightarrow> bool" where
  "usable_watermark H W wm =
     (shape wm = [H, W, 4] \<and> dtype wm = Float
      \<and> (\<forall>y<H. \<forall>x<W. (\<forall>c<3. finite_val (item wm [y, x, c]))
            \<and> (\<exists>a. item wm [y, x, 3] = Fin a \<and> a < 1)))"

text \<open>The watermark rolled by \<open>dy\<close> along the height and by \<open>dx\<close> along the width.\<close>

definition rolled :: "int \<Rightarrow> int \<Rightarrow> 'a ndarray \<Rightarrow> 'a ndarray" where
  "rolled dy dx a = roll_axis 1 dx (roll_axis 0 dy a)"

subsection \<open>Alignment detection\<close>

definition cross_corr :: "library \<Rightarrow> fval pyval \<Rightarrow> fval pyval \<Rightarrow> error + real ndarray" where
  "cross_corr lib img1 img2 =
     (if \<not> is_a_matrix img1 then Inl (AssertionError [])
      else if \<not> is_a_matrix img2 then Inl (AssertionError [])
      else
        bind (fft2' lib img1) (\<lambda>fft1.
        bind (fft2' lib img2) (\<lambda>fft2.
        bind (call_method conj fft2) (\<lambda>fft2_conj.
        bind (call_operator (broadcast2 ComplexFloat (\<lambda>x y. x * y)) fft1 fft2_conj) (\<lambda>cross_fft.
        bind (ifft2' lib cross_fft) (\<lambda>cross_corr.
        bind (fftshift' cross_corr) (\<lambda>cross_corr.
        bind (as_numpy_array cross_corr) real_part)))))))"

definition best_shift :: "library \<Rightarrow> fval ndarray \<Rightarrow> fval ndarray \<Rightarrow> error + (int \<times> int)" where
  "best_shift lib frame watermark =
     bind (cross_corr lib (NumpyArray frame) (NumpyArray watermark)) (\<lambda>corr.
     bind (argmax corr) (\<lambda>k.
     let max_loc = unravel_index k (shape corr) in
     bind (subscript max_loc 0) (\<lambda>m0.
     bind (subscript (shape watermark) 0) (\<lambda>s0.
     bind (subscript max_loc 1) (\<lambda>m1.
     bind (subscript (shape watermark) 1) (\<lambda>s1.
     let dy = int m0 - int (s0 div 2);
         dx = int m1 - int (s1 div 2)
     in Inr (dx, dy)))))))"

definition get_shifts :: "library \<Rightarrow> fval pyval \<Rightarrow> fval pyval \<Rightarrow> error + (int \<times> int)" where
  "get_shifts lib avg_frame watermark =
     bind (as_numpy_array avg_frame) (\<lambda>zavg_frame.
     bind (as_numpy_array watermark) (\<lambda>zwatermark.
     bind (blend_images lib (1 / 2) zwatermark) (\<lambda>blended.
     bind (minus_float (1 / 2) blended) (\<lambda>zwatermark.
     bind (cv_gauss_blur lib zavg_frame 20) (\<lambda>blurred.
     bind (arith fsub zavg_frame blurred) (\<lambda>zavg_frame.
     bind (as_grayscale_image lib zavg_frame) (\<lambda>zavg_frame.
     bind (as_grayscale_image lib zwatermark) (\<lambda>zwatermark.
     best_shift lib zavg_frame zwatermark))))))))"

subsection \<open>The orchestrator\<close>

text \<open>The shape of an array value (\<open>x.shape\<close>).\<close>

fun shape_of :: "'a pyval \<Rightarrow> error + nat list" where
  "shape_of (NumpyArray a) = Inr (shape a)"
| "shape_of (TorchTensor a) = Inr (shape a)"
| "shape_of (PyObject t) = Inl (AttributeError t)"

text \<open>
  Lines 163 to 180 of the program: the work on a video in the layout THWC whose values
  are on the scale of \<open>[0, 1]\<close>.
\<close>

definition remove_watermark_scaled :: "library \<Rightarrow> fval pyval \<Rightarrow> error + fval pyval" where
  "remove_watermark_scaled lib video =
     bind (mean_axis0 video) (\<lambda>avg_frame.
     bind (get_watermark_image' lib) (\<lambda>watermark.
     bind (shape_of avg_frame) (\<lambda>s.
     case s of
       [h, w, c] \<Rightarrow>
         bind (crop_image lib watermark h w) (\<lambda>watermark.
         bind (like' (NumpyArray watermark) avg_frame) (\<lambda>watermark.
         bind (get_shifts lib avg_frame watermark) (\<lambda>(best_x_shift, best_y_shift).
         bind (roll' watermark (best_y_shift, best_x_shift) (0, 1)) (\<lambda>best_watermark.
         recover_background video best_watermark))))
     | _ \<Rightarrow> Inl (ValueError ''not enough or too many values to unpack (expected 3)''))))"

text \<open>Lines 160 to 180: the scaling of 8-bit values by 255, then the work above.\<close>

definition remove_watermark_THWC :: "library \<Rightarrow> fval pyval \<Rightarrow> error + fval pyval" where
  "remove_watermark_THWC lib video =
     bind (is_uint8' video) (\<lambda>u8.
     bind (if u8 then call_method (divide_by 255) video else Inr video)
       (remove_watermark_scaled lib))"

text \<open>The video of the 8-bit values divided by 255 (\<open>video / 255\<close>).\<close>

definition scale_255 :: "fval ndarray \<Rightarrow> fval ndarray" where
  "scale_255 v = map_array Float (\<lambda>x. fdiv x (Fin 255)) v"

lemma bind_cong [fundef_cong]:
  "m = m' \<Longrightarrow> (\<And>x. m' = Inr x \<Longrightarrow> f x = f' x) \<Longrightarrow> bind m f = bind m' f'"
  by (auto simp: bind_def split: sum.splits)

function remove_watermark :: "library \<Rightarrow> fval pyval \<Rightarrow> string option \<Rightarrow> error + fval pyval" where
  "remove_watermark lib video form =
     bind (case form of None \<Rightarrow> default_form' video | Some f \<Rightarrow> Inr f) (\<lambda>form.
     if form \<notin> {''TCHW'', ''THWC''} then Inl (AssertionError [])
     else if form = ''TCHW'' then
       bind (call_method rearrange_TCHW_THWC video) (\<lambda>video.
       bind (remove_watermark lib video (Some ''THWC'')) (\<lambda>recovered.
       call_method rearrange_THWC_TCHW recovered))
     else remove_watermark_THWC lib video)"
  by pat_completeness auto
termination
  by (relation "measure (\<lambda>(lib, video, form).
        if (case form of None \<Rightarrow> default_form' video | Some f \<Rightarrow> Inr f) = Inr ''TCHW''
        then 1 else 0)") auto


section \<open>The crop of the package rp\<close>

text \<open>
  \<open>crop_image\<close> belongs to the package \<open>rp\<close>, whose code is not among the sources. The
  program relies on it to give the watermark the height and width of the frame, whatever
  the size of the template (line 167: "Make sure the watermark image is the same shape and
  type as the video so we can convolve them"). It keeps the top-left part of the image
  and, where the request is larger than the image, fills the missing rows and columns with
  zeros: it never fails on a request that is too large.
\<close>

definition rp_crop_image :: "fval ndarray \<Rightarrow> nat \<Rightarrow> nat \<Rightarrow> error + fval ndarray" where
  "rp_crop_image a h w =
     (case shape a of
        ah # aw # rest \<Rightarrow>
          Inr (tabulate (dtype a) (h # w # rest)
                 (\<lambda>ix. if ix ! 0 < ah \<and> ix ! 1 < aw then item a ix else Fin 0))
      | _ \<Rightarrow> Inl (ValueError ''an image is expected''))"

section \<open>Floating-point rounding\<close>

text \<open>
  The arithmetic above is exact. NumPy and PyTorch round the result of every operation to
  the nearest number of the element type, which changes it by at most a relative error
  \<open>u\<close> (the unit roundoff: \<open>2^-24\<close> in single, \<open>2^-53\<close> in double precision) plus an
  absolute error \<open>eta\<close> where the result underflows. A rounding is any function within
  these bounds, and an operation with rounding rounds its finite results.
\<close>

definition rounding :: "real \<Rightarrow> real \<Rightarrow> (real \<Rightarrow> real) \<Rightarrow> bool" where
  "rounding u eta rnd = (\<forall>x. \<bar>rnd x - x\<bar> \<le> u * \<bar>x\<bar> + eta)"

definition rounded :: "(real \<Rightarrow> real) \<Rightarrow> (fval \<Rightarrow> fval \<Rightarrow> fval) \<Rightarrow> fval \<Rightarrow> fval \<Rightarrow> fval" where
  "rounded rnd f x y = (case f x y of Fin z \<Rightarrow> Fin (rnd z) | v \<Rightarrow> v)"

definition int_minus_fl :: "(real \<Rightarrow> real) \<Rightarrow> int \<Rightarrow> fval ndarray \<Rightarrow> error + fval ndarray" where
  "int_minus_fl rnd k a =
     Inr (map_array (dtype a) (\<lambda>v. store (dtype a) (rounded rnd fsub (Fin (of_int k)) v)) a)"

definition true_divide_fl ::
  "(real \<Rightarrow> real) \<Rightarrow> fval ndarray \<Rightarrow> fval ndarray \<Rightarrow> error + fval ndarray" where
  "true_divide_fl rnd a b =
     broadcast2 (promote (promote (dtype a) (dtype b)) Float) (rounded rnd fdiv) a b"

text \<open>
  The background recovery (lines 110 to 120) with a rounding after each of its four
  operations; with the rounding that changes nothing it is \<open>recover_background\<close>.
\<close>

definition recover_background_fl ::
  "(real \<Rightarrow> real) \<Rightarrow> fval pyval \<Rightarrow> fval pyval \<Rightarrow> error + fval pyval" where
  "recover_background_fl rnd composite_images rgba_watermark =
     bind (call_method (slice_axis2 0 (Some 3)) rgba_watermark) (\<lambda>watermark_rgb.
     bind (call_method (slice_axis2 3 None) rgba_watermark) (\<lambda>watermark_alpha.
     bind (call_operator (arith (rounded rnd fmul)) watermark_alpha watermark_rgb) (\<lambda>overlay.
     bind (call_operator (arith (rounded rnd fsub)) composite_images overlay) (\<lambda>numerator.
     bind (call_method (int_minus_fl rnd 1) watermark_alpha) (\<lambda>denominator.
     bind (call_operator (true_divide_fl rnd) numerator denominator) (\<lambda>background.
     clip' background 0 1))))))"

text \<open>The recovery with rounding on one element, and the array it computes.\<close>

definition inverse_blend_fl :: "(real \<Rightarrow> real) \<Rightarrow> fval \<Rightarrow> fval \<Rightarrow> fval \<Rightarrow> fval" where
  "inverse_blend_fl rnd c rgb alpha =
     fclip 0 1 (rounded rnd fdiv (rounded rnd fsub c (rounded rnd fmul alpha rgb))
                                 (rounded rnd fsub (Fin 1) alpha))"

definition recovered_fl :: "(real \<Rightarrow> real) \<Rightarrow> fval ndarray \<Rightarrow> fval ndarray \<Rightarrow> fval ndarray" where
  "recovered_fl rnd v wm =
     tabulate (promote (dtype v) Float) (shape v)
       (\<lambda>ix. inverse_blend_fl rnd (item v ix) (item wm [ix ! 1, ix ! 2, ix ! 3])
                (item wm [ix ! 1, ix ! 2, 3]))"

section \<open>The synthetic composite of the round-trip property\<close>

text \<open>
  The round-trip property of the specification (section 8) is about a video that the
  program does not compute but receives: \<open>composite = alpha * rgb + (1 - alpha) *
  background\<close>, for a watermark already rolled to its place. It is written here with the
  array operations above, rounded like those of the program, to state the property.
\<close>

definition alpha_composite_fl ::
  "(real \<Rightarrow> real) \<Rightarrow> fval ndarray \<Rightarrow> fval ndarray \<Rightarrow> error + fval ndarray" where
  "alpha_composite_fl rnd background rgba =
     bind (slice_axis2 0 (Some 3) rgba) (\<lambda>rgb.
     bind (slice_axis2 3 None rgba) (\<lambda>alpha.
     bind (arith (rounded rnd fmul) alpha rgb) (\<lambda>overlay.
     bind (int_minus_fl rnd 1 alpha) (\<lambda>rest.
     bind (arith (rounded rnd fmul) rest background) (\<lambda>shown.
     arith (rounded rnd fadd) overlay shown)))))"

text \<open>The composite on one element, and the array that \<open>alpha_composite_fl\<close> computes.\<close>

definition blend_fl :: "(real \<Rightarrow> real) \<Rightarrow> fval \<Rightarrow> fval \<Rightarrow> fval \<Rightarrow> fval" where
  "blend_fl rnd b rgb alpha =
     rounded rnd fadd (rounded rnd fmul alpha rgb)
                      (rounded rnd fmul (rounded rnd fsub (Fin 1) alpha) b)"

definition composite_fl :: "(real \<Rightarrow> real) \<Rightarrow> fval ndarray \<Rightarrow> fval ndarray \<Rightarrow> fval ndarray" where
  "composite_fl rnd bg wm =
     tabulate (promote Float (dtype bg)) (shape bg)
       (\<lambda>ix. blend_fl rnd (item bg ix) (item wm [ix ! 1, ix ! 2, ix ! 3])
                (item wm [ix ! 1, ix ! 2, 3]))"

text \<open>
  A watermark of the round-trip property on frames of height \<open>H\<close> and width \<open>W\<close>: a
  floating-point RGBA image of that size with colours in \<open>[0, 1]\<close> and alpha between 0
  and 99/100.
\<close>

definition blendable_watermark :: "nat \<Rightarrow> nat \<Rightarrow> fval ndarray \<Rightarrow> bool" where
  "blendable_watermark H W wm =
     (shape wm = [H, W, 4] \<and> dtype wm = Float
      \<and> (\<forall>y<H. \<forall>x<W. (\<forall>c<3. in_unit (item wm [y, x, c]))
            \<and> (\<exists>a. item wm [y, x, 3] = Fin a \<and> 0 \<le> a \<and> a \<le> 99 / 100)))"

text \<open>
  The detection on the composite of a background and a watermark template placed at the
  shift \<open>(dx, dy)\<close>, as \<open>remove_watermark\<close> runs it: on the mean frame, with the
  template.
\<close>

definition detect_placed ::
  "(real \<Rightarrow> real) \<Rightarrow> library \<Rightarrow> fval ndarray \<Rightarrow> fval ndarray \<Rightarrow> int \<Rightarrow> int
     \<Rightarrow> error + (int \<times> int)" where
  "detect_placed rnd lib background watermark dx dy =
     bind (roll (dy, dx) (0, 1) watermark) (\<lambda>shifted.
     bind (alpha_composite_fl rnd background shifted) (\<lambda>composite.
     bind (mean0 composite) (\<lambda>avg_frame.
     get_shifts lib (NumpyArray avg_frame) (NumpyArray watermark))))"

text \<open>
  A rounding that changes one number only: \<open>1 - 2^-54\<close>, which lies halfway between two
  numbers of double precision and is rounded to 1.
\<close>

definition example_rounding :: "real \<Rightarrow> real" where
  "example_rounding x = (if x = 1 - 1 / 2 ^ 54 then 1 else x)"

section \<open>An implementation of the library routines, for examples\<close>

text \<open>
  The theorems below hold for every implementation of the library routines. Their
  examples run the program with this one: the discrete Fourier transform of a matrix and
  its inverse; a watermark file of 2 by 2 pixels; the crop of \<open>rp\<close>; the
  50/50 blend of an RGBA image over a grey level; the mean of the three channels as the
  grey image; and a blur that leaves an image as it is, which is what a Gaussian blur
  does to the images of the examples, whose pixels are all equal.
\<close>

definition to_complex :: "fval \<Rightarrow> complex" where
  "to_complex v = (case v of Fin x \<Rightarrow> complex_of_real x | _ \<Rightarrow> 0)"

definition dft2 :: "real \<Rightarrow> complex ndarray \<Rightarrow> error + complex ndarray" where
  "dft2 sign a =
     (case shape a of
        [h, w] \<Rightarrow>
          Inr (tabulate ComplexFloat [h, w]
                 (\<lambda>ix. sum_list (map
                    (\<lambda>jx. item a jx *
                       cis (sign * 2 * pi *
                             (real (ix ! 0 * jx ! 0) / real h + real (ix ! 1 * jx ! 1) / real w)))
                    (indices [h, w]))))
      | _ \<Rightarrow> Inl (ValueError ''a matrix is expected''))"

definition example_fft2 :: "fval ndarray \<Rightarrow> error + complex ndarray" where
  "example_fft2 a = dft2 (- 1) (map_array ComplexFloat to_complex a)"

definition example_ifft2 :: "complex ndarray \<Rightarrow> error + complex ndarray" where
  "example_ifft2 a =
     bind (dft2 1 a) (\<lambda>r. Inr (map_array ComplexFloat (\<lambda>z. z / of_nat (prod_list (shape a))) r))"

definition example_watermark :: "fval ndarray" where
  "example_watermark =
     \<lparr>dtype = Float, shape = [2, 2, 4],
      data = [Fin 1, Fin 1, Fin 1, Fin (1 / 2),  Fin 1, Fin 1, Fin 1, Fin 0,
              Fin 1, Fin 1, Fin 1, Fin 0,        Fin 1, Fin 1, Fin 1, Fin 0]\<rparr>"

definition example_blend :: "real \<Rightarrow> fval ndarray \<Rightarrow> error + fval ndarray" where
  "example_blend grey a =
     (case shape a of
        [h, w, c] \<Rightarrow>
          Inr (tabulate Float [h, w, 3]
                 (\<lambda>ix. fadd (fmul (item a [ix ! 0, ix ! 1, 3]) (item a ix))
                             (fmul (fsub (Fin 1) (item a [ix ! 0, ix ! 1, 3])) (Fin grey))))
      | _ \<Rightarrow> Inl (ValueError ''an image is expected''))"

definition example_grayscale :: "fval ndarray \<Rightarrow> error + fval ndarray" where
  "example_grayscale a =
     (case shape a of
        [h, w, c] \<Rightarrow>
          Inr (tabulate Float [h, w]
                 (\<lambda>ix. fdiv (fadd (fadd (item a (ix @ [0])) (item a (ix @ [1]))) (item a (ix @ [2])))
                             (Fin 3)))
      | _ \<Rightarrow> Inl (ValueError ''an image is expected''))"

definition example_library :: library where
  "example_library =
     \<lparr>np_fft2 = example_fft2, torch_fft2 = example_fft2,
      np_ifft2 = example_ifft2, torch_ifft2 = example_ifft2,
      load_image = Inr example_watermark,
      crop_image = rp_crop_image,
      blend_images = example_blend,
      cv_gauss_blur = (\<lambda>a sigma. Inr a),
      as_grayscale_image = example_grayscale\<rparr>"

section \<open>Facts about arrays\<close>

subsection \<open>Facts about multi-indices\<close>

lemma length_indices: "length (indices s) = prod_list s"
  by (induction s) simp_all

lemma ravel_less: "valid_index s ix \<Longrightarrow> ravel s ix < prod_list s"
proof (induction s ix rule: valid_index.induct)
  case (2 n ns i ix)
  then have i: "i < n" and r: "ravel ns ix < prod_list ns" by simp_all
  have "i * prod_list ns + ravel ns ix < i * prod_list ns + prod_list ns"
    using r by simp
  also have "\<dots> = Suc i * prod_list ns" by simp
  also have "\<dots> \<le> n * prod_list ns"
    using i by (intro mult_le_mono1) simp
  finally show ?case by simp
qed simp_all

lemma indices_nth: "valid_index s ix \<Longrightarrow> indices s ! ravel s ix = ix"
proof (induction s ix rule: valid_index.induct)
  case (2 n ns i ix)
  then have i: "i < n" and v: "valid_index ns ix" and ih: "indices ns ! ravel ns ix = ix"
    by simp_all
  let ?m = "prod_list ns"
  have r: "ravel ns ix < ?m" using v by (rule ravel_less)
  have pos: "0 < ?m" using r by simp
  have lt: "i * ?m + ravel ns ix < length [0..<n] * length (indices ns)"
    using ravel_less [of "n # ns" "i # ix"] i v by (simp add: length_indices)
  have d: "(i * ?m + ravel ns ix) div ?m = i" using r pos by simp
  have m: "(i * ?m + ravel ns ix) mod ?m = ravel ns ix" using r by simp
  have "List.product [0..<n] (indices ns) ! (i * ?m + ravel ns ix) = (i, ix)"
    using lt i ih r by (simp add: product_nth length_indices)
  then show ?case using lt by simp
qed simp_all

lemma valid_index_indices: "ix \<in> set (indices s) \<Longrightarrow> valid_index s ix"
  by (induction s arbitrary: ix) auto

lemma indices_valid_index: "valid_index s ix \<Longrightarrow> ix \<in> set (indices s)"
  by (metis indices_nth length_indices nth_mem ravel_less)

lemma map_ravel_indices: "map (ravel s) (indices s) = [0..<prod_list s]"
proof (rule nth_equalityI)
  show "length (map (ravel s) (indices s)) = length [0..<prod_list s]"
    by (simp add: length_indices)
next
  fix k assume "k < length (map (ravel s) (indices s))"
  then have k: "k < prod_list s" by (simp add: length_indices)
  then show "map (ravel s) (indices s) ! k = [0..<prod_list s] ! k"
  proof (induction s arbitrary: k)
    case Nil
    then show ?case by simp
  next
    case (Cons n ns)
    let ?m = "prod_list ns"
    have pos: "0 < ?m" using Cons.prems by (cases "?m = 0") simp_all
    have kd: "k div ?m < n" using Cons.prems pos
      by (simp add: less_mult_imp_div_less mult.commute)
    have km: "k mod ?m < ?m" using pos by simp
    have lt: "k < length [0..<n] * length (indices ns)"
      using Cons.prems by (simp add: length_indices)
    have "List.product [0..<n] (indices ns) ! k = (k div ?m, indices ns ! (k mod ?m))"
      using lt kd by (simp add: product_nth length_indices)
    moreover have "ravel ns (indices ns ! (k mod ?m)) = k mod ?m"
      using Cons.IH [OF km] km by (simp add: length_indices)
    ultimately show ?case using lt Cons.prems by (simp add: length_indices)
  qed
qed

lemma item_tabulate: "valid_index s ix \<Longrightarrow> item (tabulate dt s f) ix = f ix"
  by (simp add: item_def tabulate_def ravel_less length_indices indices_nth)

lemma tabulate_item: "wf a \<Longrightarrow> tabulate (dtype a) (shape a) (item a) = a"
proof -
  assume w: "wf a"
  have "map (item a) (indices (shape a)) = map ((!) (data a)) (map (ravel (shape a)) (indices (shape a)))"
    by (simp add: item_def comp_def)
  also have "\<dots> = map ((!) (data a)) [0..<length (data a)]"
    using w by (simp add: map_ravel_indices wf_def)
  also have "\<dots> = data a"
    by (rule map_nth)
  finally show ?thesis by (simp add: tabulate_def)
qed

lemma tabulate_cong:
  "(\<And>ix. valid_index s ix \<Longrightarrow> f ix = g ix) \<Longrightarrow> tabulate dt s f = tabulate dt s g"
  by (simp add: tabulate_def valid_index_indices)

lemma wf_tabulate: "wf (tabulate dt s f)"
  by (simp add: wf_def tabulate_def length_indices)

lemma shape_tabulate: "shape (tabulate dt s f) = s"
  by (simp add: tabulate_def)

lemma dtype_tabulate: "dtype (tabulate dt s f) = dt"
  by (simp add: tabulate_def)

lemma set_data_tabulate: "set (data (tabulate dt s f)) = f ` {ix. valid_index s ix}"
  using valid_index_indices indices_valid_index by (auto simp: tabulate_def)

lemma bind_Inr [simp]: "bind (Inr x) f = f x"
  by (simp add: bind_def)

lemma bind_Inl [simp]: "bind (Inl e) f = Inl e"
  by (simp add: bind_def)

lemma map_array_tabulate: "map_array dt f (tabulate d s g) = tabulate dt s (\<lambda>ix. f (g ix))"
  by (simp add: map_array_def tabulate_def)

lemma shape_map_array [simp]: "shape (map_array dt f a) = shape a"
  by (simp add: map_array_def)

lemma dtype_map_array [simp]: "dtype (map_array dt f a) = dt"
  by (simp add: map_array_def)

lemma wf_map_array [simp]: "wf (map_array dt f a) = wf a"
  by (simp add: map_array_def wf_def)

lemma item_map_array:
  "wf a \<Longrightarrow> valid_index (shape a) ix \<Longrightarrow> item (map_array dt f a) ix = f (item a ix)"
  by (simp add: map_array_def item_def wf_def ravel_less)

lemma item_in_data: "wf a \<Longrightarrow> valid_index (shape a) ix \<Longrightarrow> item a ix \<in> set (data a)"
  by (simp add: item_def wf_def ravel_less)

lemma idx_keep: "i < n \<Longrightarrow> (if n = Suc 0 then 0 else i) = i"
  by auto

lemma valid_index3:
  "valid_index [a, b, c] ix \<longleftrightarrow> (\<exists>i j k. ix = [i, j, k] \<and> i < a \<and> j < b \<and> k < c)"
proof (cases ix)
  case Nil
  then show ?thesis by simp
next
  case outer: (Cons i l1)
  show ?thesis
  proof (cases l1)
    case Nil
    with outer show ?thesis by simp
  next
    case middle: (Cons j l2)
    show ?thesis
    proof (cases l2)
      case Nil
      with outer middle show ?thesis by simp
    next
      case (Cons k l3)
      with outer middle show ?thesis by (cases l3) auto
    qed
  qed
qed

lemma valid_index4:
  "valid_index [a, b, c, d] ix \<longleftrightarrow>
     (\<exists>i j k l. ix = [i, j, k, l] \<and> i < a \<and> j < b \<and> k < c \<and> l < d)"
proof (cases ix)
  case Nil
  then show ?thesis by simp
next
  case (Cons i l1)
  then show ?thesis using valid_index3 [of b c d l1] by auto
qed

lemma promote_Float [simp]:
  "promote Float Float = Float"
  "promote (promote d Float) Float = promote d Float"
  "promote d Float \<noteq> UInt8"
  by (simp_all add: promote_def)

lemma store_Float [simp]: "store Float v = v" "store (promote d Float) v = v"
  by (simp_all add: store_def)

section \<open>Background recovery on a video and an RGBA watermark\<close>

lemma slice_rgb:
  "shape wm = [H, W, 4] \<Longrightarrow>
   slice_axis2 0 (Some 3) wm = Inr (tabulate (dtype wm) [H, W, 3] (item wm))"
  unfolding slice_axis2_def
  by (simp, intro tabulate_cong) (auto simp: valid_index3)

lemma slice_alpha:
  "shape wm = [H, W, 4] \<Longrightarrow>
   slice_axis2 3 None wm =
     Inr (tabulate (dtype wm) [H, W, 1] (\<lambda>ix. item wm [ix ! 0, ix ! 1, 3]))"
  unfolding slice_axis2_def
  by (simp, intro tabulate_cong) (auto simp: valid_index3)

lemma recover_background_arrays:
  assumes "shape v = [T, H, W, 3]" and "shape wm = [H, W, 4]" and "dtype wm = Float"
  shows "recover_background (NumpyArray v) (NumpyArray wm) = Inr (NumpyArray (recovered v wm))"
    and "recover_background (TorchTensor v) (TorchTensor wm) = Inr (TorchTensor (recovered v wm))"
proof -
  have "tabulate (promote (dtype v) Float) [T, H, W, 3]
          (\<lambda>ix. fclip 0 1
            (fdiv
              (item (tabulate (promote (dtype v) Float) [T, H, W, 3]
                 (\<lambda>ix. fsub (item v (bindex [T, H, W, 3] ix))
                   (item (tabulate Float [H, W, 3]
                      (\<lambda>ix. fmul
                        (item (tabulate Float [H, W, Suc 0] (\<lambda>ix. item wm [ix ! 0, ix ! Suc 0, 3]))
                           (bindex [H, W, Suc 0] ix))
                        (item (tabulate Float [H, W, 3] (item wm)) (bindex [H, W, 3] ix))))
                      (bindex [H, W, 3] ix))))
                 (bindex [T, H, W, 3] ix))
              (item (tabulate Float [H, W, Suc 0]
                 (\<lambda>ix. fsub (Fin 1) (item wm [ix ! 0, ix ! Suc 0, 3])))
                 (bindex [H, W, Suc 0] ix))))
        = recovered v wm"
    unfolding recovered_def assms(1)
    by (intro tabulate_cong)
       (auto simp: valid_index4 item_tabulate bindex_def idx_keep inverse_blend_def)
  then show "recover_background (NumpyArray v) (NumpyArray wm) = Inr (NumpyArray (recovered v wm))"
    and "recover_background (TorchTensor v) (TorchTensor wm) = Inr (TorchTensor (recovered v wm))"
    using assms
    by (simp_all add: recover_background_def slice_rgb slice_alpha arith_def broadcast2_def
        broadcast_shapes_def shape_tabulate dtype_tabulate int_minus_def true_divide_def
        clip_def Let_def map_array_tabulate)
qed

text \<open>
  Claim C1. For every composite video, watermark colour and watermark alpha, the
  background recovery returns, at every frame, pixel and colour channel, the value
  \<open>clip((composite - alpha * rgb) / (1 - alpha), 0, 1)\<close> of the composite value at that
  frame, pixel and channel, the watermark colour at that pixel and channel and the
  watermark alpha at that pixel; no other element enters. The video has shape
  \<open>(T, H, W, 3)\<close>, the watermark is the floating-point RGBA image of shape \<open>(H, W, 4)\<close>
  that the program passes, in either library.
\<close>

theorem recover_background_formula:
  assumes "shape composite = [T, H, W, 3]" and "shape watermark = [H, W, 4]"
    and "dtype watermark = Float"
    and "t < T" and "y < H" and "x < W" and "c < 3"
  shows "\<exists>background.
      recover_background (NumpyArray composite) (NumpyArray watermark) = Inr (NumpyArray background)
    \<and> recover_background (TorchTensor composite) (TorchTensor watermark) = Inr (TorchTensor background)
    \<and> shape background = [T, H, W, 3]
    \<and> item background [t, y, x, c] =
        fclip 0 1
          (fdiv (fsub (item composite [t, y, x, c])
                      (fmul (item watermark [y, x, 3]) (item watermark [y, x, c])))
                (fsub (Fin 1) (item watermark [y, x, 3])))"
proof (intro exI conjI)
  show "recover_background (NumpyArray composite) (NumpyArray watermark)
          = Inr (NumpyArray (recovered composite watermark))"
    using assms(1-3) by (rule recover_background_arrays)
  show "recover_background (TorchTensor composite) (TorchTensor watermark)
          = Inr (TorchTensor (recovered composite watermark))"
    using assms(1-3) by (rule recover_background_arrays)
  show "shape (recovered composite watermark) = [T, H, W, 3]"
    using assms(1) by (simp add: recovered_def shape_tabulate)
  show "item (recovered composite watermark) [t, y, x, c] =
        fclip 0 1
          (fdiv (fsub (item composite [t, y, x, c])
                      (fmul (item watermark [y, x, 3]) (item watermark [y, x, c])))
                (fsub (Fin 1) (item watermark [y, x, 3])))"
    using assms by (simp add: recovered_def item_tabulate inverse_blend_def)
qed

theorem recover_background_formula_witness:
  "\<exists>background.
      recover_background
        (NumpyArray \<lparr>dtype = Float, shape = [1, 1, 1, 3], data = [Fin (5/8), Fin (3/4), Fin (7/8)]\<rparr>)
        (NumpyArray \<lparr>dtype = Float, shape = [1, 1, 4], data = [Fin 1, Fin 1, Fin 1, Fin (1/2)]\<rparr>)
        = Inr (NumpyArray background)
    \<and> recover_background
        (TorchTensor \<lparr>dtype = Float, shape = [1, 1, 1, 3], data = [Fin (5/8), Fin (3/4), Fin (7/8)]\<rparr>)
        (TorchTensor \<lparr>dtype = Float, shape = [1, 1, 4], data = [Fin 1, Fin 1, Fin 1, Fin (1/2)]\<rparr>)
        = Inr (TorchTensor background)
    \<and> shape background = [1, 1, 1, 3]
    \<and> item background [0, 0, 0, 2] = Fin (3/4)"
  using recover_background_formula
    [of "\<lparr>dtype = Float, shape = [1, 1, 1, 3], data = [Fin (5/8), Fin (3/4), Fin (7/8)]\<rparr>" 1 1 1
        "\<lparr>dtype = Float, shape = [1, 1, 4], data = [Fin 1, Fin 1, Fin 1, Fin (1/2)]\<rparr>" 0 0 0 2]
  by (simp add: item_def fsub_def)

lemma inverse_blend_zero_alpha:
  "in_unit v \<Longrightarrow> finite_val rgb \<Longrightarrow> inverse_blend v rgb (Fin 0) = v"
  by (cases v; cases rgb) (simp_all add: in_unit_def finite_val_def inverse_blend_def fsub_def)

text \<open>
  Claim C4. No-watermark identity: when the alpha of the watermark is 0 at every pixel,
  the recovery of a floating-point frame whose values lie in \<open>[0, 1]\<close> is that frame
  exactly, whatever the (finite) colours of the watermark are.
\<close>

theorem no_watermark_identity:
  assumes "shape frame = [T, H, W, 3]" and "wf frame" and "dtype frame = Float"
    and "\<forall>v \<in> set (data frame). in_unit v"
    and "shape watermark = [H, W, 4]" and "dtype watermark = Float"
    and "\<forall>y<H. \<forall>x<W. item watermark [y, x, 3] = Fin 0
           \<and> (\<forall>c<3. finite_val (item watermark [y, x, c]))"
  shows "recover_background (NumpyArray frame) (NumpyArray watermark) = Inr (NumpyArray frame)
       \<and> recover_background (TorchTensor frame) (TorchTensor watermark) = Inr (TorchTensor frame)"
proof -
  have pointwise: "inverse_blend (item frame ix) (item watermark [ix ! 1, ix ! 2, ix ! 3])
            (item watermark [ix ! 1, ix ! 2, 3]) = item frame ix"
    if "valid_index (shape frame) ix" for ix
  proof -
    from that have v: "valid_index [T, H, W, 3] ix" and u: "in_unit (item frame ix)"
      using assms(1,2,4) item_in_data [of frame ix] by simp_all
    from v obtain t y x c where ix: "ix = [t, y, x, c]" and b: "y < H" "x < W" "c < 3"
      by (auto simp: valid_index4)
    show ?thesis
      using u b assms(7) by (simp add: ix inverse_blend_zero_alpha)
  qed
  have "recovered frame watermark = tabulate Float (shape frame) (item frame)"
    unfolding recovered_def assms(3) promote_Float(1)
    by (rule tabulate_cong) (rule pointwise)
  then have "recovered frame watermark = tabulate (dtype frame) (shape frame) (item frame)"
    by (simp add: assms(3))
  also have "\<dots> = frame" using assms(2) by (rule tabulate_item)
  finally show ?thesis
    using recover_background_arrays [OF assms(1,5,6)] by simp
qed

theorem no_watermark_identity_witness:
  "recover_background
     (NumpyArray \<lparr>dtype = Float, shape = [1, 1, 1, 3], data = [Fin 0, Fin (1/3), Fin 1]\<rparr>)
     (NumpyArray \<lparr>dtype = Float, shape = [1, 1, 4], data = [Fin 7, Fin (-2), Fin (1/5), Fin 0]\<rparr>)
   = Inr (NumpyArray \<lparr>dtype = Float, shape = [1, 1, 1, 3], data = [Fin 0, Fin (1/3), Fin 1]\<rparr>)
   \<and> recover_background
     (TorchTensor \<lparr>dtype = Float, shape = [1, 1, 1, 3], data = [Fin 0, Fin (1/3), Fin 1]\<rparr>)
     (TorchTensor \<lparr>dtype = Float, shape = [1, 1, 4], data = [Fin 7, Fin (-2), Fin (1/5), Fin 0]\<rparr>)
   = Inr (TorchTensor \<lparr>dtype = Float, shape = [1, 1, 1, 3], data = [Fin 0, Fin (1/3), Fin 1]\<rparr>)"
  using no_watermark_identity
    [of "\<lparr>dtype = Float, shape = [1, 1, 1, 3], data = [Fin 0, Fin (1/3), Fin 1]\<rparr>" 1 1 1
        "\<lparr>dtype = Float, shape = [1, 1, 4], data = [Fin 7, Fin (-2), Fin (1/5), Fin 0]\<rparr>"]
  by (simp add: item_def wf_def in_unit_def finite_val_def less_Suc_eq numeral_3_eq_3)

text \<open>
  Claim C10. The division of the recovery is unguarded, but where the watermark alpha is
  less than 1 the divisor \<open>1 - alpha\<close> is a number other than zero, so the zero-divisor
  branch of the division is not taken, and the recovered element of finite operands is the
  finite number \<open>min(max((c - alpha * rgb) / (1 - alpha), 0), 1)\<close>. The statement is per
  pixel, so it holds at every pixel when alpha is less than 1 at every pixel.
\<close>

theorem division_by_zero_unreachable:
  assumes "shape composite = [T, H, W, 3]" and "shape watermark = [H, W, 4]"
    and "dtype watermark = Float"
    and "t < T" and "y < H" and "x < W" and "c < 3"
    and "item composite [t, y, x, c] = Fin cv"
    and "item watermark [y, x, c] = Fin rv"
    and "item watermark [y, x, 3] = Fin av" and "av < 1"
  shows "\<exists>background d.
      recover_background (NumpyArray composite) (NumpyArray watermark) = Inr (NumpyArray background)
    \<and> recover_background (TorchTensor composite) (TorchTensor watermark) = Inr (TorchTensor background)
    \<and> fsub (Fin 1) (item watermark [y, x, 3]) = Fin d \<and> d \<noteq> 0
    \<and> item background [t, y, x, c] = Fin (min (max ((cv - av * rv) / (1 - av)) 0) 1)"
proof (intro exI conjI)
  show "recover_background (NumpyArray composite) (NumpyArray watermark)
          = Inr (NumpyArray (recovered composite watermark))"
    using assms(1-3) by (rule recover_background_arrays)
  show "recover_background (TorchTensor composite) (TorchTensor watermark)
          = Inr (TorchTensor (recovered composite watermark))"
    using assms(1-3) by (rule recover_background_arrays)
  show "fsub (Fin 1) (item watermark [y, x, 3]) = Fin (1 - av)"
    using assms(10) by (simp add: fsub_def)
  show "1 - av \<noteq> 0" using assms(11) by simp
  show "item (recovered composite watermark) [t, y, x, c] =
          Fin (min (max ((cv - av * rv) / (1 - av)) 0) 1)"
    using assms by (simp add: recovered_def item_tabulate inverse_blend_def fsub_def)
qed

theorem division_by_zero_unreachable_witness:
  "\<exists>background d.
      recover_background
        (NumpyArray \<lparr>dtype = Float, shape = [1, 1, 1, 3], data = [Fin (5/8), Fin (3/4), Fin (7/8)]\<rparr>)
        (NumpyArray \<lparr>dtype = Float, shape = [1, 1, 4], data = [Fin 1, Fin 1, Fin 1, Fin (1/2)]\<rparr>)
        = Inr (NumpyArray background)
    \<and> recover_background
        (TorchTensor \<lparr>dtype = Float, shape = [1, 1, 1, 3], data = [Fin (5/8), Fin (3/4), Fin (7/8)]\<rparr>)
        (TorchTensor \<lparr>dtype = Float, shape = [1, 1, 4], data = [Fin 1, Fin 1, Fin 1, Fin (1/2)]\<rparr>)
        = Inr (TorchTensor background)
    \<and> fsub (Fin 1) (Fin (1/2)) = Fin d \<and> d \<noteq> 0
    \<and> item background [0, 0, 0, 0] = Fin (1/4)"
  using division_by_zero_unreachable
    [of "\<lparr>dtype = Float, shape = [1, 1, 1, 3], data = [Fin (5/8), Fin (3/4), Fin (7/8)]\<rparr>" 1 1 1
        "\<lparr>dtype = Float, shape = [1, 1, 4], data = [Fin 1, Fin 1, Fin 1, Fin (1/2)]\<rparr>" 0 0 0 0
        "5/8" 1 "1/2"]
  by (simp add: item_def)

section \<open>The format adapter on a value of neither library\<close>

text \<open>
  Claim C9. On a value that is neither a NumPy array nor a PyTorch tensor, every function
  of the format adapter (Fourier transform, inverse transform, spectrum shift, clip,
  roll, default layout, conversion to the library of a reference, and the test for 8-bit
  values) raises at once: its result is the error and never a value. The program raises
  Python's \<open>TypeError\<close> with the message "Unsupported input type(s)"; that is the error
  the specification calls UnsupportedBackend. The conversion raises when either of its two
  arguments is such a value.
\<close>

theorem unsupported_backend_raises:
  "fft2' lib (PyObject t) = Inl (unsupported t)
   \<and> ifft2' lib (PyObject t) = Inl (unsupported t)
   \<and> fftshift' (PyObject t) = Inl (unsupported t)
   \<and> clip' (PyObject t) min_val max_val = Inl (unsupported t)
   \<and> roll' (PyObject t) shift dims = Inl (unsupported t)
   \<and> default_form' (PyObject t) = Inl (unsupported t)
   \<and> is_uint8' (PyObject t) = Inl (unsupported t)
   \<and> like' (PyObject t) target =
         Inl (TypeError (''Unsupported input types: '' @ t @ '' '' @ type_name target))
   \<and> like' x (PyObject t) =
         Inl (TypeError (''Unsupported input types: '' @ type_name x @ '' '' @ t))"
  by (cases target; cases x) simp_all

section \<open>The position of the greatest correlation\<close>

lemma argmax_scan_spec:
  "b < k \<Longrightarrow>
   (argmax_scan b v k xs = b \<and> (\<forall>x\<in>set xs. x \<le> v))
   \<or> (k \<le> argmax_scan b v k xs \<and> argmax_scan b v k xs < k + length xs
       \<and> v < xs ! (argmax_scan b v k xs - k)
       \<and> (\<forall>x\<in>set xs. x \<le> xs ! (argmax_scan b v k xs - k))
       \<and> (\<forall>j < argmax_scan b v k xs - k. xs ! j < xs ! (argmax_scan b v k xs - k)))"
proof (induction xs arbitrary: b v k)
  case Nil
  then show ?case by simp
next
  case (Cons x xs)
  show ?case
  proof (cases "v < x")
    case True
    let ?r = "argmax_scan k x (Suc k) xs"
    have r: "argmax_scan b v k (x # xs) = ?r" using True by simp
    from Cons.IH [of k "Suc k" x]
    consider (stay) "?r = k" "\<forall>y\<in>set xs. y \<le> x"
      | (move) "Suc k \<le> ?r" "?r < Suc k + length xs" "x < xs ! (?r - Suc k)"
          "\<forall>y\<in>set xs. y \<le> xs ! (?r - Suc k)" "\<forall>j < ?r - Suc k. xs ! j < xs ! (?r - Suc k)"
      by auto
    then show ?thesis
    proof cases
      case stay
      then show ?thesis using True r by auto
    next
      case move
      have idx: "(x # xs) ! (?r - k) = xs ! (?r - Suc k)"
        using move(1) by (simp add: nth_Cons')
      have "\<forall>j < ?r - k. (x # xs) ! j < xs ! (?r - Suc k)"
      proof (intro allI impI)
        fix j assume j: "j < ?r - k"
        show "(x # xs) ! j < xs ! (?r - Suc k)"
        proof (cases j)
          case 0
          then show ?thesis using move(3) by simp
        next
          case (Suc i)
          then have "i < ?r - Suc k" using j by simp
          then show ?thesis using move(5) Suc by simp
        qed
      qed
      then show ?thesis using move True r idx by (auto simp: less_imp_le)
    qed
  next
    case False
    let ?r = "argmax_scan b v (Suc k) xs"
    have r: "argmax_scan b v k (x # xs) = ?r" using False by simp
    have bk: "b < Suc k" using Cons.prems by simp
    from Cons.IH [OF bk, of v]
    consider (stay) "?r = b" "\<forall>y\<in>set xs. y \<le> v"
      | (move) "Suc k \<le> ?r" "?r < Suc k + length xs" "v < xs ! (?r - Suc k)"
          "\<forall>y\<in>set xs. y \<le> xs ! (?r - Suc k)" "\<forall>j < ?r - Suc k. xs ! j < xs ! (?r - Suc k)"
      by auto
    then show ?thesis
    proof cases
      case stay
      then show ?thesis using False r by auto
    next
      case move
      have idx: "(x # xs) ! (?r - k) = xs ! (?r - Suc k)"
        using move(1) by (simp add: nth_Cons')
      have "\<forall>j < ?r - k. (x # xs) ! j < xs ! (?r - Suc k)"
      proof (intro allI impI)
        fix j assume j: "j < ?r - k"
        show "(x # xs) ! j < xs ! (?r - Suc k)"
        proof (cases j)
          case 0
          then show ?thesis using move(3) False by simp
        next
          case (Suc i)
          then have "i < ?r - Suc k" using j by simp
          then show ?thesis using move(5) Suc by simp
        qed
      qed
      moreover have "x \<le> xs ! (?r - Suc k)" using move(3) False by simp
      ultimately show ?thesis using move r idx by auto
    qed
  qed
qed

lemma argmax_first_maximum:
  assumes "argmax a = Inr k"
  shows "k < length (data a) \<and> (\<forall>j < length (data a). data a ! j \<le> data a ! k)
         \<and> (\<forall>j < k. data a ! j < data a ! k)"
proof (cases "data a")
  case Nil
  then show ?thesis using assms by (simp add: argmax_def)
next
  case (Cons x xs)
  then have k: "k = argmax_scan 0 x 1 xs" using assms by (simp add: argmax_def)
  from argmax_scan_spec [of 0 1 x xs]
  consider (stay) "k = 0" "\<forall>y\<in>set xs. y \<le> x"
    | (move) "1 \<le> k" "k < 1 + length xs" "x < xs ! (k - 1)"
        "\<forall>y\<in>set xs. y \<le> xs ! (k - 1)" "\<forall>j < k - 1. xs ! j < xs ! (k - 1)"
    unfolding k by auto
  then show ?thesis
  proof cases
    case stay
    then show ?thesis using Cons by (auto simp: nth_Cons')
  next
    case move
    have kk: "(x # xs) ! k = xs ! (k - 1)" using move(1) by (simp add: nth_Cons')
    have a: "\<forall>j < length (x # xs). (x # xs) ! j \<le> xs ! (k - 1)"
      using move(3,4) by (auto simp: nth_Cons' less_imp_le)
    have b: "\<forall>j < k. (x # xs) ! j < xs ! (k - 1)"
    proof (intro allI impI)
      fix j assume "j < k"
      then show "(x # xs) ! j < xs ! (k - 1)"
        using move(3,5) by (cases j) auto
    qed
    show ?thesis using move(2) a b kk Cons by simp
  qed
qed


lemma cross_corr_matrix:
  "cross_corr lib img1 img2 = Inr corr \<Longrightarrow> is_a_matrix img1 \<and> is_a_matrix img2"
  by (auto simp: cross_corr_def split: if_splits)

text \<open>
  Claim C3. The shift is computed from the position of the greatest value of the
  correlation surface: \<open>dx = max_x - watermark_width // 2\<close> and
  \<open>dy = max_y - watermark_height // 2\<close>, where \<open>(max_y, max_x)\<close> holds a greatest value
  of the surface and every position before it in row-major order holds a strictly smaller
  value (among equal maxima the first in row-major order is taken).
\<close>

theorem best_shift_first_maximum:
  assumes "cross_corr lib (NumpyArray frame) (NumpyArray watermark) = Inr corr"
    and "shape corr = [Hc, Wc]" and "wf corr" and "0 < Hc * Wc"
  shows "\<exists>max_y max_x. max_y < Hc \<and> max_x < Wc
     \<and> best_shift lib frame watermark =
         Inr (int max_x - int (shape watermark ! 1 div 2),
              int max_y - int (shape watermark ! 0 div 2))
     \<and> (\<forall>y<Hc. \<forall>x<Wc. item corr [y, x] \<le> item corr [max_y, max_x])
     \<and> (\<forall>y<Hc. \<forall>x<Wc. y < max_y \<or> (y = max_y \<and> x < max_x)
           \<longrightarrow> item corr [y, x] < item corr [max_y, max_x])"
proof -
  have len: "length (data corr) = Hc * Wc"
    using assms(2,3) by (simp add: wf_def)
  then obtain v vs where "data corr = v # vs"
    using assms(4) by (cases "data corr") auto
  then obtain k where k: "argmax corr = Inr k"
    by (simp add: argmax_def)
  from argmax_first_maximum [OF k]
  have kl: "k < Hc * Wc"
    and kmax: "\<forall>j < Hc * Wc. data corr ! j \<le> data corr ! k"
    and kfirst: "\<forall>j < k. data corr ! j < data corr ! k"
    using len by simp_all
  have Wpos: "0 < Wc" using assms(4) by simp
  let ?my = "k div Wc" and ?mx = "k mod Wc"
  have my: "?my < Hc" using kl Wpos by (simp add: less_mult_imp_div_less)
  have mx: "?mx < Wc" using Wpos by simp
  have it: "item corr [y, x] = data corr ! (y * Wc + x)" for y x
    using assms(2) by (simp add: item_def)
  have kk: "?my * Wc + ?mx = k" by simp
  have pos: "y * Wc + x < Hc * Wc" if "y < Hc" "x < Wc" for y x
  proof -
    have "y * Wc + x < Suc y * Wc" using that by simp
    also have "\<dots> \<le> Hc * Wc" using that by (intro mult_le_mono1) simp
    finally show ?thesis .
  qed
  have before: "y * Wc + x < k" if "x < Wc" "y < ?my \<or> (y = ?my \<and> x < ?mx)" for y x
  proof -
    from that(2) show ?thesis
    proof
      assume "y < ?my"
      have "y * Wc + x < Suc y * Wc" using that(1) by simp
      also have "\<dots> \<le> ?my * Wc" using \<open>y < ?my\<close> by (intro mult_le_mono1) simp
      also have "\<dots> \<le> k" by simp
      finally show ?thesis .
    next
      assume a: "y = ?my \<and> x < ?mx"
      then have "?my * Wc + x < ?my * Wc + ?mx" by (simp only: add_less_cancel_left)
      then have "?my * Wc + x < k" unfolding kk .
      then show ?thesis using a by simp
    qed
  qed
  have m: "length (shape watermark) = 2"
    using cross_corr_matrix [OF assms(1)] by simp
  have "best_shift lib frame watermark =
          Inr (int ?mx - int (shape watermark ! 1 div 2), int ?my - int (shape watermark ! 0 div 2))"
    using assms(1,2) k m by (simp add: best_shift_def subscript_def Let_def)
  moreover have "\<forall>y<Hc. \<forall>x<Wc. item corr [y, x] \<le> item corr [?my, ?mx]"
    using kmax pos by (simp add: it)
  moreover have "\<forall>y<Hc. \<forall>x<Wc. y < ?my \<or> (y = ?my \<and> x < ?mx)
           \<longrightarrow> item corr [y, x] < item corr [?my, ?mx]"
    using kfirst before by (simp add: it)
  ultimately show ?thesis using my mx by blast
qed

section \<open>The layouts and the scale of the input\<close>

lemma remove_watermark_THWC_eq:
  "remove_watermark lib video (Some ''THWC'') = remove_watermark_THWC lib video"
  by (subst remove_watermark.simps) simp

lemma remove_watermark_TCHW_eq:
  "remove_watermark lib video (Some ''TCHW'') =
     bind (call_method rearrange_TCHW_THWC video) (\<lambda>video.
     bind (remove_watermark_THWC lib video) (call_method rearrange_THWC_TCHW))"
  by (subst remove_watermark.simps) (simp add: remove_watermark_THWC_eq)

lemma remove_watermark_other:
  "f \<noteq> ''TCHW'' \<Longrightarrow> f \<noteq> ''THWC'' \<Longrightarrow> remove_watermark lib video (Some f) = Inl (AssertionError [])"
  by (subst remove_watermark.simps) simp

lemma remove_watermark_None:
  "remove_watermark lib video None = bind (default_form' video) (\<lambda>f. remove_watermark lib video (Some f))"
  by (subst remove_watermark.simps, subst (2) remove_watermark.simps)
     (cases "default_form' video"; simp)

lemma rearrange_THWC_TCHW_4:
  "shape a = [t, h, w, c] \<Longrightarrow>
   rearrange_THWC_TCHW a =
     Inr (tabulate (dtype a) [t, c, h, w] (\<lambda>ix. item a [ix ! 0, ix ! 2, ix ! 3, ix ! 1]))"
  by (simp add: rearrange_THWC_TCHW_def)

lemma rearrange_TCHW_THWC_4:
  "shape a = [t, c, h, w] \<Longrightarrow>
   rearrange_TCHW_THWC a =
     Inr (tabulate (dtype a) [t, h, w, c] (\<lambda>ix. item a [ix ! 0, ix ! 3, ix ! 1, ix ! 2]))"
  by (simp add: rearrange_TCHW_THWC_def)

lemma rearrange_round_trip:
  assumes "wf a" and "shape a = [t, h, w, c]"
  shows "\<exists>a'. rearrange_THWC_TCHW a = Inr a' \<and> rearrange_TCHW_THWC a' = Inr a"
proof -
  let ?a' = "tabulate (dtype a) [t, c, h, w] (\<lambda>ix. item a [ix ! 0, ix ! 2, ix ! 3, ix ! 1])"
  have "rearrange_TCHW_THWC ?a' =
          Inr (tabulate (dtype a) [t, h, w, c] (\<lambda>ix. item ?a' [ix ! 0, ix ! 3, ix ! 1, ix ! 2]))"
    by (simp add: rearrange_TCHW_THWC_4 shape_tabulate dtype_tabulate)
  also have "tabulate (dtype a) [t, h, w, c] (\<lambda>ix. item ?a' [ix ! 0, ix ! 3, ix ! 1, ix ! 2])
               = tabulate (dtype a) (shape a) (item a)"
    unfolding assms(2)
    by (rule tabulate_cong) (auto simp: valid_index4 item_tabulate)
  also have "\<dots> = a" using assms(1) by (rule tabulate_item)
  finally show ?thesis using assms(2) by (simp add: rearrange_THWC_TCHW_4)
qed

text \<open>
  Claim C6. Layout round trip: for a video in the layout THWC and the same data in the
  layout TCHW (the transposed array), the run on the channel-first array is the run on the
  channel-last array with its result transposed to the channel-first layout; the two
  runs fail together, with the same error. The results are equal, not only close.
\<close>

theorem layout_round_trip:
  assumes "wf v" and "shape v = [T, H, W, C]"
  shows "\<exists>v'. rearrange_THWC_TCHW v = Inr v'
     \<and> remove_watermark lib (NumpyArray v') (Some ''TCHW'') =
         bind (remove_watermark lib (NumpyArray v) (Some ''THWC'')) (call_method rearrange_THWC_TCHW)
     \<and> remove_watermark lib (TorchTensor v') (Some ''TCHW'') =
         bind (remove_watermark lib (TorchTensor v) (Some ''THWC'')) (call_method rearrange_THWC_TCHW)"
proof -
  from rearrange_round_trip [OF assms] obtain v'
    where "rearrange_THWC_TCHW v = Inr v'" and "rearrange_TCHW_THWC v' = Inr v"
    by blast
  then show ?thesis
    by (simp add: remove_watermark_TCHW_eq remove_watermark_THWC_eq)
qed

theorem layout_round_trip_witness:
  "\<forall>lib. \<exists>v'.
     rearrange_THWC_TCHW \<lparr>dtype = Float, shape = [1, 1, 2, 3],
        data = [Fin 0, Fin (1/4), Fin (1/2), Fin (3/4), Fin 1, Fin (1/8)]\<rparr> = Inr v'
     \<and> data v' = [Fin 0, Fin (3/4), Fin (1/4), Fin 1, Fin (1/2), Fin (1/8)]
     \<and> remove_watermark lib (NumpyArray v') (Some ''TCHW'') =
         bind (remove_watermark lib
                 (NumpyArray \<lparr>dtype = Float, shape = [1, 1, 2, 3],
                    data = [Fin 0, Fin (1/4), Fin (1/2), Fin (3/4), Fin 1, Fin (1/8)]\<rparr>)
                 (Some ''THWC''))
           (call_method rearrange_THWC_TCHW)"
proof
  fix lib
  from layout_round_trip
    [of "\<lparr>dtype = Float, shape = [1, 1, 2, 3],
          data = [Fin 0, Fin (1/4), Fin (1/2), Fin (3/4), Fin 1, Fin (1/8)]\<rparr>" 1 1 2 3 lib]
  obtain v' where v': "rearrange_THWC_TCHW \<lparr>dtype = Float, shape = [1, 1, 2, 3],
        data = [Fin 0, Fin (1/4), Fin (1/2), Fin (3/4), Fin 1, Fin (1/8)]\<rparr> = Inr v'"
    and run: "remove_watermark lib (NumpyArray v') (Some ''TCHW'') =
         bind (remove_watermark lib
                 (NumpyArray \<lparr>dtype = Float, shape = [1, 1, 2, 3],
                    data = [Fin 0, Fin (1/4), Fin (1/2), Fin (3/4), Fin 1, Fin (1/8)]\<rparr>)
                 (Some ''THWC''))
           (call_method rearrange_THWC_TCHW)"
    by (auto simp: wf_def)
  from v' have "data v' = [Fin 0, Fin (3/4), Fin (1/4), Fin 1, Fin (1/2), Fin (1/8)]"
    by (auto simp: rearrange_THWC_TCHW_def tabulate_def item_def upt_conv_Cons)
  with v' run show "\<exists>v'.
     rearrange_THWC_TCHW \<lparr>dtype = Float, shape = [1, 1, 2, 3],
        data = [Fin 0, Fin (1/4), Fin (1/2), Fin (3/4), Fin 1, Fin (1/8)]\<rparr> = Inr v'
     \<and> data v' = [Fin 0, Fin (3/4), Fin (1/4), Fin 1, Fin (1/2), Fin (1/8)]
     \<and> remove_watermark lib (NumpyArray v') (Some ''TCHW'') =
         bind (remove_watermark lib
                 (NumpyArray \<lparr>dtype = Float, shape = [1, 1, 2, 3],
                    data = [Fin 0, Fin (1/4), Fin (1/2), Fin (3/4), Fin 1, Fin (1/8)]\<rparr>)
                 (Some ''THWC''))
           (call_method rearrange_THWC_TCHW)"
    by blast
qed

lemma rearrange_map_array:
  assumes "wf a"
  shows "rearrange_TCHW_THWC (map_array dt f a) =
           bind (rearrange_TCHW_THWC a) (\<lambda>r. Inr (map_array dt f r))"
proof (cases "\<exists>t c h w. shape a = [t, c, h, w]")
  case True
  then obtain t c h w where s: "shape a = [t, c, h, w]" by blast
  have "tabulate dt [t, h, w, c] (\<lambda>ix. item (map_array dt f a) [ix ! 0, ix ! 3, ix ! 1, ix ! 2])
      = tabulate dt [t, h, w, c] (\<lambda>ix. f (item a [ix ! 0, ix ! 3, ix ! 1, ix ! 2]))"
    by (rule tabulate_cong) (auto simp: valid_index4 item_map_array assms s)
  then show ?thesis
    using s by (simp add: rearrange_TCHW_THWC_4 map_array_tabulate)
next
  case False
  then show ?thesis
    by (auto simp: rearrange_TCHW_THWC_def split: list.splits)
qed

lemma wf_rearrange: "rearrange_TCHW_THWC a = Inr r \<Longrightarrow> wf r \<and> dtype r = dtype a"
  by (auto simp: rearrange_TCHW_THWC_def wf_tabulate dtype_tabulate split: list.splits)

lemma call_method_array:
  "B = NumpyArray \<or> B = TorchTensor \<Longrightarrow> call_method f (B a) = bind (f a) (\<lambda>r. Inr (B r))"
  by auto

lemma is_uint8_array:
  "B = NumpyArray \<or> B = TorchTensor \<Longrightarrow> is_uint8' (B a) = Inr (dtype a = UInt8)"
  by auto

lemma scaling_THWC:
  assumes "B = NumpyArray \<or> B = TorchTensor"
  shows "dtype v = UInt8 \<Longrightarrow>
     remove_watermark_THWC lib (B v) = remove_watermark_scaled lib (B (scale_255 v))"
    and "dtype v \<noteq> UInt8 \<Longrightarrow>
     remove_watermark_THWC lib (B v) = remove_watermark_scaled lib (B v)"
  using assms
  by (simp_all add: remove_watermark_THWC_def call_method_array is_uint8_array divide_by_def
      scale_255_def promote_def)

lemma integer_scale_layout:
  assumes B: "B = NumpyArray \<or> B = TorchTensor" and "wf v" and "dtype v = UInt8"
  shows "remove_watermark lib (B v) (Some f) = remove_watermark lib (B (scale_255 v)) (Some f)"
proof -
  have u: "dtype (scale_255 v) \<noteq> UInt8" by (simp add: scale_255_def)
  have r: "rearrange_TCHW_THWC (scale_255 v) =
             bind (rearrange_TCHW_THWC v) (\<lambda>r. Inr (scale_255 r))"
    unfolding scale_255_def using assms(2) by (rule rearrange_map_array)
  consider "f = ''THWC''" | "f = ''TCHW''" | "f \<noteq> ''TCHW''" "f \<noteq> ''THWC''" by blast
  then show ?thesis
  proof cases
    case 1
    then show ?thesis using assms(3) u by (simp add: remove_watermark_THWC_eq scaling_THWC [OF B])
  next
    case 2
    show ?thesis
    proof (cases "rearrange_TCHW_THWC v")
      case (Inl e)
      then show ?thesis using 2 r by (simp add: remove_watermark_TCHW_eq call_method_array [OF B])
    next
      case (Inr rv)
      then have "dtype rv = UInt8" "dtype (scale_255 rv) \<noteq> UInt8"
        using wf_rearrange [OF Inr] assms(3) by (simp_all add: scale_255_def)
      then show ?thesis using 2 r Inr
        by (simp add: remove_watermark_TCHW_eq call_method_array [OF B] scaling_THWC [OF B])
    qed
  next
    case 3
    then show ?thesis by (simp add: remove_watermark_other)
  qed
qed

lemma scale_255_unit:
  assumes "\<forall>e\<in>set (data v). \<exists>n::nat. n \<le> 255 \<and> e = Fin (real n)"
  shows "\<forall>e\<in>set (data (scale_255 v)). in_unit e"
  using assms by (auto simp: scale_255_def map_array_def in_unit_def)

text \<open>
  Claim C7. A video of 8-bit values is divided by 255 before anything else is computed,
  which gives floating-point values in \<open>[0, 1]\<close>; a video of any other element type is
  processed as it is. Hence the run on an 8-bit video is the run on the floating-point
  video of the same values divided by 255, in every layout: an 8-bit video of constant
  value 128 and a floating-point video of constant value 128/255 give the same result.
\<close>

theorem integer_scale_equivalence:
  assumes "B = NumpyArray \<or> B = TorchTensor" and "wf v" and "dtype v = UInt8"
    and "\<forall>e\<in>set (data v). \<exists>n::nat. n \<le> 255 \<and> e = Fin (real n)"
  shows "remove_watermark lib (B v) form = remove_watermark lib (B (scale_255 v)) form
     \<and> remove_watermark_THWC lib (B v) = remove_watermark_scaled lib (B (scale_255 v))
     \<and> dtype (scale_255 v) = Float \<and> shape (scale_255 v) = shape v
     \<and> data (scale_255 v) = map (\<lambda>x. fdiv x (Fin 255)) (data v)
     \<and> (\<forall>e\<in>set (data (scale_255 v)). in_unit e)
     \<and> (\<forall>u. dtype u \<noteq> UInt8 \<longrightarrow>
           remove_watermark_THWC lib (B u) = remove_watermark_scaled lib (B u))"
proof -
  have "remove_watermark lib (B v) form = remove_watermark lib (B (scale_255 v)) form"
  proof (cases form)
    case None
    have "default_form' (B v) = default_form' (B (scale_255 v))"
      using assms(1) by auto
    then show ?thesis
      using None integer_scale_layout [OF assms(1-3)]
      by (cases "default_form' (B (scale_255 v))") (simp_all add: remove_watermark_None)
  next
    case (Some f)
    then show ?thesis using integer_scale_layout [OF assms(1-3)] by simp
  qed
  then show ?thesis
    using scaling_THWC [OF assms(1)] assms(3) scale_255_unit [OF assms(4)]
    by (simp add: scale_255_def map_array_def)
qed

theorem integer_scale_equivalence_witness:
  "\<forall>lib form.
     remove_watermark lib
       (NumpyArray \<lparr>dtype = UInt8, shape = [1, 1, 1, 3], data = [Fin 128, Fin 128, Fin 128]\<rparr>) form
     = remove_watermark lib
       (NumpyArray \<lparr>dtype = Float, shape = [1, 1, 1, 3],
          data = [Fin (128 / 255), Fin (128 / 255), Fin (128 / 255)]\<rparr>) form"
proof (intro allI)
  fix lib form
  have "\<exists>n::nat. n \<le> 255 \<and> (128::real) = real n"
    by (rule exI [of _ 128]) simp
  then show "remove_watermark lib
       (NumpyArray \<lparr>dtype = UInt8, shape = [1, 1, 1, 3], data = [Fin 128, Fin 128, Fin 128]\<rparr>) form
     = remove_watermark lib
       (NumpyArray \<lparr>dtype = Float, shape = [1, 1, 1, 3],
          data = [Fin (128 / 255), Fin (128 / 255), Fin (128 / 255)]\<rparr>) form"
    using integer_scale_equivalence
      [where B = NumpyArray and lib = lib and form = form
         and v = "\<lparr>dtype = UInt8, shape = [1, 1, 1, 3], data = [Fin 128, Fin 128, Fin 128]\<rparr>"]
    by (simp add: scale_255_def map_array_def wf_def)
qed

section \<open>The result of the whole run\<close>

lemma nat_mod_less: "0 < n \<Longrightarrow> nat (z mod int n) < n"
  by (simp add: nat_less_iff)

lemma roll_axes_01:
  assumes "shape wm = [H, W, C]"
  shows "roll (dy, dx) (0, 1) wm = Inr (rolled dy dx wm)"
    and "shape (rolled dy dx wm) = [H, W, C]"
    and "dtype (rolled dy dx wm) = dtype wm"
    and "wf (rolled dy dx wm)"
    and "y < H \<Longrightarrow> x < W \<Longrightarrow> c < C \<Longrightarrow>
         item (rolled dy dx wm) [y, x, c] =
         item wm [nat ((int y - dy) mod int H), nat ((int x - dx) mod int W), c]"
proof -
  show "roll (dy, dx) (0, 1) wm = Inr (rolled dy dx wm)"
    using assms by (simp add: roll_def rolled_def)
  show "shape (rolled dy dx wm) = [H, W, C]"
    using assms by (simp add: rolled_def roll_axis_def shape_tabulate)
  show "dtype (rolled dy dx wm) = dtype wm"
    by (simp add: rolled_def roll_axis_def dtype_tabulate)
  show "wf (rolled dy dx wm)"
    by (simp add: rolled_def roll_axis_def wf_tabulate)
  assume b: "y < H" "x < W" "c < C"
  then have "nat ((int x - dx) mod int W) < W" by (intro nat_mod_less) simp
  then show "item (rolled dy dx wm) [y, x, c] =
         item wm [nat ((int y - dy) mod int H), nat ((int x - dx) mod int W), c]"
    using assms b by (simp add: rolled_def roll_axis_def shape_tabulate item_tabulate)
qed

lemma usable_watermark_roll:
  assumes "usable_watermark H W wm"
  shows "usable_watermark H W (rolled dy dx wm)"
proof -
  have s: "shape wm = [H, W, 4]" using assms by (simp add: usable_watermark_def)
  have "(\<forall>c<3. finite_val (item (rolled dy dx wm) [y, x, c]))
        \<and> (\<exists>a. item (rolled dy dx wm) [y, x, 3] = Fin a \<and> a < 1)"
    if "y < H" "x < W" for y x
  proof -
    have "nat ((int y - dy) mod int H) < H" "nat ((int x - dx) mod int W) < W"
      using that by (simp_all add: nat_mod_less)
    then show ?thesis
      using assms that by (simp add: roll_axes_01(5) [OF s] usable_watermark_def)
  qed
  then show ?thesis
    using assms by (simp add: usable_watermark_def roll_axes_01 [OF s])
qed

lemma inverse_blend_unit:
  "finite_val c \<Longrightarrow> finite_val rgb \<Longrightarrow> a < 1 \<Longrightarrow> in_unit (inverse_blend c rgb (Fin a))"
  by (cases c; cases rgb) (simp_all add: finite_val_def in_unit_def inverse_blend_def fsub_def)

lemma recovered_unit:
  assumes "shape v = [T, H, W, 3]" and "wf v" and "\<forall>e\<in>set (data v). finite_val e"
    and "usable_watermark H W wm"
  shows "\<forall>e\<in>set (data (recovered v wm)). in_unit e"
proof
  fix e assume "e \<in> set (data (recovered v wm))"
  then obtain ix where v: "valid_index (shape v) ix"
    and e: "e = inverse_blend (item v ix) (item wm [ix ! 1, ix ! 2, ix ! 3]) (item wm [ix ! 1, ix ! 2, 3])"
    by (auto simp: recovered_def set_data_tabulate)
  from v obtain t y x c where ix: "ix = [t, y, x, c]" and b: "y < H" "x < W" "c < 3"
    using assms(1) by (auto simp: valid_index4)
  have "finite_val (item v ix)" using assms(2,3) v item_in_data by blast
  moreover have "finite_val (item wm [y, x, c])"
    and "\<exists>a. item wm [y, x, 3] = Fin a \<and> a < 1"
    using assms(4) b by (simp_all add: usable_watermark_def)
  ultimately show "in_unit e"
    unfolding e ix by (auto simp: inverse_blend_unit)
qed

lemma recovered_facts:
  "shape (recovered v wm) = shape v" "dtype (recovered v wm) = promote (dtype v) Float"
  "wf (recovered v wm)"
  by (simp_all add: recovered_def shape_tabulate dtype_tabulate wf_tabulate)

lemma mean_axis0_array:
  assumes "B = NumpyArray \<or> B = TorchTensor" and "shape v = t # rest" and "dtype v = Float"
  shows "\<exists>avg. mean_axis0 (B v) = Inr (B avg) \<and> shape avg = rest \<and> dtype avg = Float"
  using assms by (auto simp: mean0_def shape_tabulate dtype_tabulate)

lemma like_array:
  assumes "B = NumpyArray \<or> B = TorchTensor" and "dtype wm = Float" and "dtype avg = Float"
  shows "like' (NumpyArray wm) (B avg) = Inr (B wm)"
  using assms by (auto simp: astype_def map_array_def)

lemma remove_watermark_scaled_result:
  assumes B: "B = NumpyArray \<or> B = TorchTensor"
    and v: "shape v = [T, H, W, 3]" "dtype v = Float"
    and wm: "get_watermark_image' lib = Inr asset" "crop_image lib asset H W = Inr wm"
      "usable_watermark H W wm"
    and out: "remove_watermark_scaled lib (B v) = Inr out"
  shows "\<exists>dx dy. out = B (recovered v (rolled dy dx wm))"
proof -
  from mean_axis0_array [OF B v] obtain avg
    where avg: "mean_axis0 (B v) = Inr (B avg)" "shape avg = [H, W, 3]" "dtype avg = Float"
    by blast
  have s: "shape wm = [H, W, 4]" and d: "dtype wm = Float"
    using wm(3) by (simp_all add: usable_watermark_def)
  have so: "shape_of (B avg) = Inr [H, W, 3]" using B avg(2) by auto
  have lk: "like' (NumpyArray wm) (B avg) = Inr (B wm)"
    using B d avg(3) by (rule like_array)
  obtain dx dy where sh: "get_shifts lib (B avg) (B wm) = Inr (dx, dy)"
    using out avg(1) wm(1,2) so lk
    by (cases "get_shifts lib (B avg) (B wm)") (auto simp: remove_watermark_scaled_def)
  have rl: "roll' (B wm) (dy, dx) (0, 1) = Inr (B (rolled dy dx wm))"
    using B roll_axes_01(1) [OF s] by auto
  have rb: "recover_background (B v) (B (rolled dy dx wm))
          = Inr (B (recovered v (rolled dy dx wm)))"
    using B recover_background_arrays [OF v(1) roll_axes_01(2) [OF s]] d
    by (auto simp: roll_axes_01(3) [OF s])
  show ?thesis
    using out avg(1) wm(1,2) so lk sh rl rb by (auto simp: remove_watermark_scaled_def)
qed


lemma scale_255_facts:
  "shape (scale_255 v) = shape v" "dtype (scale_255 v) = Float" "wf (scale_255 v) = wf v"
  "(\<forall>e\<in>set (data v). finite_val e) \<Longrightarrow> (\<forall>e\<in>set (data (scale_255 v)). finite_val e)"
proof -
  show "(\<forall>e\<in>set (data v). finite_val e) \<Longrightarrow> (\<forall>e\<in>set (data (scale_255 v)). finite_val e)"
  proof
    fix e assume a: "\<forall>e\<in>set (data v). finite_val e" and "e \<in> set (data (scale_255 v))"
    then obtain x where "x \<in> set (data v)" "e = fdiv x (Fin 255)"
      by (auto simp: scale_255_def map_array_def)
    then have "finite_val x" and e: "e = fdiv x (Fin 255)" using a by simp_all
    then show "finite_val e" unfolding e by (cases x) (simp_all add: finite_val_def)
  qed
qed (simp_all add: scale_255_def)

lemma remove_watermark_THWC_output:
  assumes B: "B = NumpyArray \<or> B = TorchTensor"
    and v: "shape v = [T, H, W, 3]" "wf v" "dtype v = UInt8 \<or> dtype v = Float"
      "\<forall>e\<in>set (data v). finite_val e"
    and wm: "get_watermark_image' lib = Inr asset" "crop_image lib asset H W = Inr wm"
      "usable_watermark H W wm"
    and out: "remove_watermark_THWC lib (B v) = Inr out"
  shows "\<exists>r. out = B r \<and> shape r = [T, H, W, 3] \<and> dtype r = Float \<and> wf r
           \<and> (\<forall>e\<in>set (data r). in_unit e)"
proof -
  define vn where "vn = (if dtype v = UInt8 then scale_255 v else v)"
  have vn: "shape vn = [T, H, W, 3]" "dtype vn = Float" "wf vn" "\<forall>e\<in>set (data vn). finite_val e"
    using v scale_255_facts [of v] by (auto simp: vn_def)
  have "remove_watermark_THWC lib (B v) = remove_watermark_scaled lib (B vn)"
    using scaling_THWC [OF B] by (simp add: vn_def)
  with out have "remove_watermark_scaled lib (B vn) = Inr out" by simp
  from remove_watermark_scaled_result [OF B vn(1,2) wm this]
  obtain dx dy where o: "out = B (recovered vn (rolled dy dx wm))" by blast
  have "\<forall>e\<in>set (data (recovered vn (rolled dy dx wm))). in_unit e"
    using vn(1,3,4) usable_watermark_roll [OF wm(3)] by (rule recovered_unit)
  then show ?thesis
    using o vn(1,2) by (intro exI [of _ "recovered vn (rolled dy dx wm)"]) (simp add: recovered_facts)
qed

lemma rearranged_TCHW_facts:
  assumes "shape a = [t, c, h, w]" and "wf a"
  shows "\<exists>r. rearrange_TCHW_THWC a = Inr r \<and> shape r = [t, h, w, c] \<and> dtype r = dtype a
           \<and> wf r \<and> set (data r) \<subseteq> set (data a)"
proof -
  have "item a [ix ! 0, ix ! 3, ix ! 1, ix ! 2] \<in> set (data a)" if "valid_index [t, h, w, c] ix" for ix
    using that assms by (intro item_in_data) (auto simp: valid_index4)
  then show ?thesis
    using assms(1)
    by (auto simp: rearrange_TCHW_THWC_4 shape_tabulate dtype_tabulate wf_tabulate set_data_tabulate)
qed

lemma rearranged_THWC_facts:
  assumes "shape a = [t, h, w, c]" and "wf a"
  shows "\<exists>r. rearrange_THWC_TCHW a = Inr r \<and> shape r = [t, c, h, w] \<and> dtype r = dtype a
           \<and> wf r \<and> set (data r) \<subseteq> set (data a)"
proof -
  have "item a [ix ! 0, ix ! 2, ix ! 3, ix ! 1] \<in> set (data a)" if "valid_index [t, c, h, w] ix" for ix
    using that assms by (intro item_in_data) (auto simp: valid_index4)
  then show ?thesis
    using assms(1)
    by (auto simp: rearrange_THWC_TCHW_4 shape_tabulate dtype_tabulate wf_tabulate set_data_tabulate)
qed

lemma remove_watermark_TCHW_output:
  assumes B: "B = NumpyArray \<or> B = TorchTensor"
    and v: "shape v = [T, 3, H, W]" "wf v" "dtype v = UInt8 \<or> dtype v = Float"
      "\<forall>e\<in>set (data v). finite_val e"
    and wm: "get_watermark_image' lib = Inr asset" "crop_image lib asset H W = Inr wm"
      "usable_watermark H W wm"
    and out: "remove_watermark lib (B v) (Some ''TCHW'') = Inr out"
  shows "\<exists>r. out = B r \<and> shape r = [T, 3, H, W] \<and> dtype r = Float \<and> wf r
           \<and> (\<forall>e\<in>set (data r). in_unit e)"
proof -
  from rearranged_TCHW_facts [OF v(1,2)] obtain rv
    where rv: "rearrange_TCHW_THWC v = Inr rv" "shape rv = [T, H, W, 3]" "dtype rv = dtype v"
      "wf rv" "set (data rv) \<subseteq> set (data v)"
    by blast
  have fin: "\<forall>e\<in>set (data rv). finite_val e" using rv(5) v(4) by blast
  have dt: "dtype rv = UInt8 \<or> dtype rv = Float" using rv(3) v(3) by simp
  obtain mid where mid: "remove_watermark_THWC lib (B rv) = Inr mid"
    and fin_out: "call_method rearrange_THWC_TCHW mid = Inr out"
    using out rv(1)
    by (cases "remove_watermark_THWC lib (B rv)")
       (auto simp: remove_watermark_TCHW_eq call_method_array [OF B])
  from remove_watermark_THWC_output [OF B rv(2,4) dt fin wm mid]
  obtain r where r: "mid = B r" "shape r = [T, H, W, 3]" "dtype r = Float" "wf r"
    "\<forall>e\<in>set (data r). in_unit e"
    by blast
  from rearranged_THWC_facts [OF r(2,4)] obtain r2
    where r2: "rearrange_THWC_TCHW r = Inr r2" "shape r2 = [T, 3, H, W]" "dtype r2 = dtype r"
      "wf r2" "set (data r2) \<subseteq> set (data r)"
    by blast
  have "out = B r2" using fin_out r(1) r2(1) by (simp add: call_method_array [OF B])
  then show ?thesis using r2 r(3,5) by auto
qed

text \<open>
  Claim C5. For every valid input video (four axes with three colour channels, in the
  layout THWC or TCHW, of 8-bit or floating-point numbers) the array that
  \<open>remove_watermark\<close> returns belongs to the library of the input, has the shape and
  thereby the layout of the input, has a floating-point element type, and every element of
  it lies in \<open>[0, 1]\<close>. The watermark cropped to the frame is the floating-point RGBA
  image of the frame's height and width, with alpha below 1, that the specification
  presupposes.
\<close>

theorem output_shape_type_range:
  assumes "B = NumpyArray \<or> B = TorchTensor"
    and "layout = (case form of Some f \<Rightarrow> f | None \<Rightarrow> if B = NumpyArray then ''THWC'' else ''TCHW'')"
    and "layout = ''THWC'' \<and> shape v = [T, H, W, 3] \<or> layout = ''TCHW'' \<and> shape v = [T, 3, H, W]"
    and "wf v" and "dtype v = UInt8 \<or> dtype v = Float"
    and "\<forall>e\<in>set (data v). finite_val e"
    and "get_watermark_image' lib = Inr asset" and "crop_image lib asset H W = Inr wm"
    and "usable_watermark H W wm"
    and "remove_watermark lib (B v) form = Inr out"
  shows "\<exists>r. out = B r \<and> shape r = shape v \<and> dtype r = Float \<and> wf r
           \<and> (\<forall>e\<in>set (data r). in_unit e)"
proof -
  have "default_form' (B v) = Inr (if B = NumpyArray then ''THWC'' else ''TCHW'')"
    using assms(1) by auto
  then have run: "remove_watermark lib (B v) form = remove_watermark lib (B v) (Some layout)"
    using assms(2) by (cases form) (simp_all add: remove_watermark_None)
  from assms(3) show ?thesis
  proof (elim disjE conjE)
    assume l: "layout = ''THWC''" and s: "shape v = [T, H, W, 3]"
    have "remove_watermark_THWC lib (B v) = Inr out"
      using run l assms(10) by (simp add: remove_watermark_THWC_eq)
    from remove_watermark_THWC_output [OF assms(1) s assms(4-9) this]
    show ?thesis using s by simp
  next
    assume l: "layout = ''TCHW''" and s: "shape v = [T, 3, H, W]"
    have "remove_watermark lib (B v) (Some ''TCHW'') = Inr out"
      using run l assms(10) by simp
    from remove_watermark_TCHW_output [OF assms(1) s assms(4-9) this]
    show ?thesis using s by simp
  qed
qed

section \<open>Runs of the program with the example library\<close>

lemmas eval_array = tabulate_def item_def upt_conv_Cons map_array_def

lemma example_asset: "get_watermark_image' example_library = Inr example_watermark"
  by (simp add: get_watermark_image'_def example_library_def example_watermark_def
      is_rgba_image_def is_float_image_def)

lemma example_crop: "crop_image example_library example_watermark 1 1 =
   Inr \<lparr>dtype = Float, shape = [1, 1, 4], data = [Fin 1, Fin 1, Fin 1, Fin (1 / 2)]\<rparr>"
  by (simp add: example_library_def rp_crop_image_def example_watermark_def eval_array)

lemma example_shift: "get_shifts example_library
     (NumpyArray \<lparr>dtype = Float, shape = [1, 1, 3], data = [Fin (128 / 255), Fin (128 / 255), Fin (128 / 255)]\<rparr>)
     (NumpyArray \<lparr>dtype = Float, shape = [1, 1, 4], data = [Fin 1, Fin 1, Fin 1, Fin (1 / 2)]\<rparr>)
   = Inr (0, 0)"
  by (simp add: get_shifts_def example_library_def example_blend_def example_grayscale_def
      minus_float_def arith_def broadcast2_def broadcast_shapes_def bindex_def promote_def store_def
      best_shift_def cross_corr_def example_fft2_def example_ifft2_def dft2_def to_complex_def
      conj_def real_part_def fftshift_def argmax_def subscript_def fsub_def Let_def eval_array)


lemma example_run: "remove_watermark example_library
     (NumpyArray \<lparr>dtype = UInt8, shape = [1, 1, 1, 3], data = [Fin 128, Fin 128, Fin 128]\<rparr>) None
   = Inr (NumpyArray \<lparr>dtype = Float, shape = [1, 1, 1, 3],
        data = [Fin (1 / 255), Fin (1 / 255), Fin (1 / 255)]\<rparr>)"
  apply (simp add: remove_watermark_None remove_watermark_THWC_eq remove_watermark_THWC_def
     remove_watermark_scaled_def divide_by_def mean0_def promote_def example_asset eval_array)
  apply (simp add: example_crop [simplified] example_shift [simplified] roll_def roll_axis_def eval_array)
  apply (simp add: recover_background_def slice_axis2_def arith_def int_minus_def true_divide_def
     clip_def broadcast2_def broadcast_shapes_def bindex_def promote_def store_def fsub_def Let_def eval_array)
  done

lemma example_correlation: "cross_corr example_library
     (NumpyArray \<lparr>dtype = Float, shape = [2, 2], data = [Fin 0, Fin 0, Fin 0, Fin 0]\<rparr>)
     (NumpyArray \<lparr>dtype = Float, shape = [2, 2], data = [Fin (1 / 4), Fin 0, Fin 0, Fin 0]\<rparr>)
   = Inr \<lparr>dtype = Float, shape = [2, 2], data = [0, 0, 0, 0]\<rparr>"
  by (simp add: example_library_def broadcast2_def broadcast_shapes_def bindex_def
      cross_corr_def example_fft2_def example_ifft2_def dft2_def to_complex_def
      conj_def real_part_def fftshift_def eval_array)


theorem best_shift_first_maximum_witness:
  "best_shift example_library
     \<lparr>dtype = Float, shape = [2, 2], data = [Fin 0, Fin 0, Fin 0, Fin 0]\<rparr>
     \<lparr>dtype = Float, shape = [2, 2], data = [Fin (1 / 4), Fin 0, Fin 0, Fin 0]\<rparr>
   = Inr (- 1, - 1)"
proof -
  let ?corr = "\<lparr>dtype = Float, shape = [2, 2], data = [0, 0, 0, 0 :: real]\<rparr>"
  have zero: "item ?corr [y, x] = 0" if "y < 2" "x < 2" for y x
  proof -
    from that have "y * 2 + x < 4" by simp
    then have "y * 2 + x \<in> {0, 1, 2, 3}" by auto
    then show ?thesis by (auto simp: item_def)
  qed
  from best_shift_first_maximum [OF example_correlation, of 2 2]
  obtain max_y max_x where b: "max_y < 2" "max_x < 2"
    and s: "best_shift example_library
       \<lparr>dtype = Float, shape = [2, 2], data = [Fin 0, Fin 0, Fin 0, Fin 0]\<rparr>
       \<lparr>dtype = Float, shape = [2, 2], data = [Fin (1 / 4), Fin 0, Fin 0, Fin 0]\<rparr>
       = Inr (int max_x - 1, int max_y - 1)"
    and first: "\<forall>y<2. \<forall>x<2. y < max_y \<or> (y = max_y \<and> x < max_x)
           \<longrightarrow> item ?corr [y, x] < item ?corr [max_y, max_x]"
    by (auto simp: wf_def)
  have "\<not> (0 < max_y \<or> (0 = max_y \<and> 0 < max_x))"
  proof
    assume "0 < max_y \<or> (0 = max_y \<and> 0 < max_x)"
    moreover have "(0::nat) < 2" by simp
    ultimately have "item ?corr [0, 0] < item ?corr [max_y, max_x]" using first by blast
    then show False using zero [of 0 0] zero [OF b] by simp
  qed
  then have "max_y = 0" "max_x = 0" by auto
  then show ?thesis using s by simp
qed


lemma usable_example:
  "usable_watermark 1 1 \<lparr>dtype = Float, shape = [1, 1, 4], data = [Fin 1, Fin 1, Fin 1, Fin (1 / 2)]\<rparr>"
proof -
  have "\<exists>a::real. 1 / 2 = a \<and> a < 1" by (rule exI [of _ "1 / 2"]) simp
  then show ?thesis
    by (simp add: usable_watermark_def item_def finite_val_def less_Suc_eq numeral_3_eq_3)
qed

theorem output_shape_type_range_witness:
  "\<exists>r. remove_watermark example_library
          (NumpyArray \<lparr>dtype = UInt8, shape = [1, 1, 1, 3], data = [Fin 128, Fin 128, Fin 128]\<rparr>)
          None = Inr (NumpyArray r)
       \<and> shape r = [1, 1, 1, 3] \<and> dtype r = Float \<and> wf r \<and> (\<forall>e\<in>set (data r). in_unit e)"
  unfolding example_run
  using output_shape_type_range
    [where B = NumpyArray and form = None and layout = "''THWC''" and T = 1 and H = 1 and W = 1
       and lib = example_library and asset = example_watermark
       and v = "\<lparr>dtype = UInt8, shape = [1, 1, 1, 3], data = [Fin 128, Fin 128, Fin 128]\<rparr>",
     OF _ _ _ _ _ _ example_asset example_crop usable_example example_run]
  by (simp add: wf_def finite_val_def)

section \<open>The crop of the watermark template\<close>

text \<open>
  The crop of an RGBA template of height \<open>th\<close> and width \<open>tw\<close> to \<open>h\<close> by \<open>w\<close>: an image of
  exactly that size, the template at the pixels that the template has and zero at the
  others.
\<close>

lemma rp_crop_image_rgba:
  assumes "shape template = [th, tw, 4]"
  shows "\<exists>cropped. rp_crop_image template h w = Inr cropped \<and> shape cropped = [h, w, 4]
     \<and> dtype cropped = dtype template
     \<and> (\<forall>y<h. \<forall>x<w. \<forall>c<4. item cropped [y, x, c] =
           (if y < th \<and> x < tw then item template [y, x, c] else Fin 0))"
  using assms by (simp add: rp_crop_image_def shape_tabulate dtype_tabulate item_tabulate)

text \<open>
  Claim C8, as amended. For every requested height \<open>h\<close> and width \<open>w\<close>, cropping the
  watermark template returns an image of exactly \<open>h\<close> by \<open>w\<close>: the top-left crop of the
  template when both fit, and otherwise the template's top-left part with zeros (colour 0,
  alpha 0) at every pixel outside the template. A request larger than the template is
  padded and raises no error: \<open>remove_watermark\<close> has no check of its own on the
  dimensions (lines 167 to 170) and goes on to the detection and the recovery with the
  padded template, so that its result is the detection's error or a recovered video.
\<close>

theorem crop_image_pads:
  assumes "shape template = [th, tw, 4]" and "dtype template = Float"
    and "load_image lib = Inr template" and "crop_image lib = rp_crop_image"
    and "B = NumpyArray \<or> B = TorchTensor"
    and "shape video = [T, h, w, 3]" and "dtype video = UInt8 \<or> dtype video = Float"
  shows "\<exists>cropped avg_frame.
       rp_crop_image template h w = Inr cropped \<and> shape cropped = [h, w, 4]
     \<and> (\<forall>y<h. \<forall>x<w. \<forall>c<4. item cropped [y, x, c] =
           (if y < th \<and> x < tw then item template [y, x, c] else Fin 0))
     \<and> remove_watermark lib (B video) (Some ''THWC'') =
         bind (get_shifts lib (B avg_frame) (B cropped))
           (\<lambda>(dx, dy). Inr (B (recovered (if dtype video = UInt8 then scale_255 video else video)
                                   (rolled dy dx cropped))))"
proof -
  define vn where "vn = (if dtype video = UInt8 then scale_255 video else video)"
  have vn: "shape vn = [T, h, w, 3]" "dtype vn = Float"
    using assms(6,7) scale_255_facts [of video] by (auto simp: vn_def)
  from mean_axis0_array [OF assms(5) vn] obtain avg
    where avg: "mean_axis0 (B vn) = Inr (B avg)" "shape avg = [h, w, 3]" "dtype avg = Float"
    by blast
  from rp_crop_image_rgba [OF assms(1), of h w] obtain cropped
    where c: "rp_crop_image template h w = Inr cropped" "shape cropped = [h, w, 4]"
      "dtype cropped = dtype template"
      "\<forall>y<h. \<forall>x<w. \<forall>c<4. item cropped [y, x, c] =
           (if y < th \<and> x < tw then item template [y, x, c] else Fin 0)"
    by blast
  have d: "dtype cropped = Float" using c(3) assms(2) by simp
  have so: "shape_of (B avg) = Inr [h, w, 3]" using assms(5) avg(2) by auto
  have g: "get_watermark_image' lib = Inr template"
    using assms(1-3) by (simp add: get_watermark_image'_def is_rgba_image_def is_float_image_def)
  have lk: "like' (NumpyArray cropped) (B avg) = Inr (B cropped)"
    using assms(5) d avg(3) by (rule like_array)
  have rest: "bind (roll' (B cropped) (dy, dx) (0, Suc 0)) (recover_background (B vn))
                = Inr (B (recovered vn (rolled dy dx cropped)))" for dx dy
  proof -
    have "roll' (B cropped) (dy, dx) (0, Suc 0) = Inr (B (rolled dy dx cropped))"
      using assms(5) roll_axes_01(1) [OF c(2)] by auto
    moreover have "recover_background (B vn) (B (rolled dy dx cropped))
          = Inr (B (recovered vn (rolled dy dx cropped)))"
      using assms(5) recover_background_arrays [OF vn(1) roll_axes_01(2) [OF c(2)]] d
      by (auto simp: roll_axes_01(3) [OF c(2)])
    ultimately show ?thesis by simp
  qed
  have "remove_watermark_scaled lib (B vn) =
          bind (get_shifts lib (B avg) (B cropped))
            (\<lambda>(dx, dy). Inr (B (recovered vn (rolled dy dx cropped))))"
    using avg(1) so g c(1) assms(4) lk
    by (cases "get_shifts lib (B avg) (B cropped)")
       (auto simp: remove_watermark_scaled_def rest)
  moreover have "remove_watermark lib (B video) (Some ''THWC'') = remove_watermark_scaled lib (B vn)"
    using scaling_THWC [OF assms(5), of video lib]
    by (auto simp: vn_def remove_watermark_THWC_eq)
  ultimately have "remove_watermark lib (B video) (Some ''THWC'') =
          bind (get_shifts lib (B avg) (B cropped))
            (\<lambda>(dx, dy). Inr (B (recovered vn (rolled dy dx cropped))))"
    by simp
  then show ?thesis
    using c(1,2,4) unfolding vn_def
    by (intro exI [of _ cropped] exI [of _ avg]) simp
qed

text \<open>
  The template of the example library is 2 by 2; cropped to 3 by 3 it is padded with a
  third row and a third column of zeros, and the detection on a frame of constant value
  \<open>1/2\<close> then gives the shift \<open>(-1, -1)\<close>.
\<close>

lemma example_crop_padded:
  "crop_image example_library example_watermark 3 3 =
     Inr \<lparr>dtype = Float, shape = [3, 3, 4],
          data = [Fin 1, Fin 1, Fin 1, Fin (1 / 2),  Fin 1, Fin 1, Fin 1, Fin 0,  Fin 0, Fin 0, Fin 0, Fin 0,
              Fin 1, Fin 1, Fin 1, Fin 0,        Fin 1, Fin 1, Fin 1, Fin 0,  Fin 0, Fin 0, Fin 0, Fin 0,
              Fin 0, Fin 0, Fin 0, Fin 0,        Fin 0, Fin 0, Fin 0, Fin 0,  Fin 0, Fin 0, Fin 0, Fin 0]\<rparr>"
  by (simp add: example_library_def rp_crop_image_def example_watermark_def eval_array)

lemma example_shift_padded:
  "get_shifts example_library
     (NumpyArray \<lparr>dtype = Float, shape = [3, 3, 3], data = [Fin (1 / 2), Fin (1 / 2), Fin (1 / 2), Fin (1 / 2), Fin (1 / 2), Fin (1 / 2), Fin (1 / 2), Fin (1 / 2), Fin (1 / 2), Fin (1 / 2), Fin (1 / 2), Fin (1 / 2), Fin (1 / 2), Fin (1 / 2), Fin (1 / 2), Fin (1 / 2), Fin (1 / 2), Fin (1 / 2), Fin (1 / 2), Fin (1 / 2), Fin (1 / 2), Fin (1 / 2), Fin (1 / 2), Fin (1 / 2), Fin (1 / 2), Fin (1 / 2), Fin (1 / 2)]\<rparr>)
     (NumpyArray \<lparr>dtype = Float, shape = [3, 3, 4], data = [Fin 1, Fin 1, Fin 1, Fin (1 / 2),  Fin 1, Fin 1, Fin 1, Fin 0,  Fin 0, Fin 0, Fin 0, Fin 0,
              Fin 1, Fin 1, Fin 1, Fin 0,        Fin 1, Fin 1, Fin 1, Fin 0,  Fin 0, Fin 0, Fin 0, Fin 0,
              Fin 0, Fin 0, Fin 0, Fin 0,        Fin 0, Fin 0, Fin 0, Fin 0,  Fin 0, Fin 0, Fin 0, Fin 0]\<rparr>)
   = Inr (- 1, - 1)"
  by (simp add: get_shifts_def example_library_def example_blend_def example_grayscale_def
      minus_float_def arith_def broadcast2_def broadcast_shapes_def bindex_def promote_def store_def
      best_shift_def cross_corr_def example_fft2_def example_ifft2_def dft2_def to_complex_def
      conj_def real_part_def fftshift_def argmax_def subscript_def fsub_def Let_def eval_array)

text \<open>
  Claim C8 as stated fails: a video of one frame of 3 by 3 pixels is larger than the
  2 by 2 template, and the run does not fail. It returns a video, recovered with the
  padded template: the pixel that the shifted template covers with alpha \<open>1/2\<close> becomes 0,
  the others are unchanged.
\<close>

theorem oversize_crop_is_padded:
  "remove_watermark example_library
     (NumpyArray \<lparr>dtype = Float, shape = [1, 3, 3, 3], data = [Fin (1 / 2), Fin (1 / 2), Fin (1 / 2), Fin (1 / 2), Fin (1 / 2), Fin (1 / 2), Fin (1 / 2), Fin (1 / 2), Fin (1 / 2), Fin (1 / 2), Fin (1 / 2), Fin (1 / 2), Fin (1 / 2), Fin (1 / 2), Fin (1 / 2), Fin (1 / 2), Fin (1 / 2), Fin (1 / 2), Fin (1 / 2), Fin (1 / 2), Fin (1 / 2), Fin (1 / 2), Fin (1 / 2), Fin (1 / 2), Fin (1 / 2), Fin (1 / 2), Fin (1 / 2)]\<rparr>)
     (Some ''THWC'')
   = Inr (NumpyArray \<lparr>dtype = Float, shape = [1, 3, 3, 3],
        data = [Fin (1 / 2), Fin (1 / 2), Fin (1 / 2), Fin (1 / 2), Fin (1 / 2), Fin (1 / 2), Fin (1 / 2), Fin (1 / 2), Fin (1 / 2), Fin (1 / 2), Fin (1 / 2), Fin (1 / 2), Fin (1 / 2), Fin (1 / 2), Fin (1 / 2), Fin (1 / 2), Fin (1 / 2), Fin (1 / 2), Fin (1 / 2), Fin (1 / 2), Fin (1 / 2), Fin (1 / 2), Fin (1 / 2), Fin (1 / 2), Fin 0, Fin 0, Fin 0]\<rparr>)"
  apply (simp add: remove_watermark_THWC_eq remove_watermark_THWC_def
     remove_watermark_scaled_def mean0_def promote_def example_asset eval_array)
  apply (simp add: example_crop_padded [simplified] example_shift_padded [simplified]
     roll_def roll_axis_def eval_array)
  apply (simp add: recover_background_def slice_axis2_def arith_def int_minus_def true_divide_def
     clip_def broadcast2_def broadcast_shapes_def bindex_def promote_def store_def fsub_def Let_def eval_array)
  done

theorem crop_image_pads_witness:
  "\<exists>cropped avg_frame.
       rp_crop_image example_watermark 3 3 = Inr cropped \<and> shape cropped = [3, 3, 4]
     \<and> item cropped [0, 0, 3] = Fin (1 / 2) \<and> item cropped [2, 2, 3] = Fin 0
     \<and> remove_watermark example_library
          (NumpyArray \<lparr>dtype = Float, shape = [1, 3, 3, 3], data = replicate 27 (Fin (1 / 2))\<rparr>)
          (Some ''THWC'') =
         bind (get_shifts example_library (NumpyArray avg_frame) (NumpyArray cropped))
           (\<lambda>(dx, dy). Inr (NumpyArray
              (recovered \<lparr>dtype = Float, shape = [1, 3, 3, 3], data = replicate 27 (Fin (1 / 2))\<rparr>
                 (rolled dy dx cropped))))"
proof -
  have a: "shape example_watermark = [2, 2, 4]" "dtype example_watermark = Float"
    "load_image example_library = Inr example_watermark"
    "crop_image example_library = rp_crop_image"
    by (simp_all add: example_watermark_def example_library_def)
  have it: "item example_watermark [0, 0, 3] = Fin (1 / 2)"
    by (simp add: example_watermark_def item_def)
  from crop_image_pads [OF a, where B = NumpyArray and h = 3 and w = 3 and T = 1
      and video = "\<lparr>dtype = Float, shape = [1, 3, 3, 3], data = replicate 27 (Fin (1 / 2))\<rparr>"]
  obtain cropped avg_frame where
    c: "rp_crop_image example_watermark 3 3 = Inr cropped" "shape cropped = [3, 3, 4]"
    and items: "\<forall>y<3. \<forall>x<3. \<forall>c<4. item cropped [y, x, c] =
           (if y < 2 \<and> x < 2 then item example_watermark [y, x, c] else Fin 0)"
    and run: "remove_watermark example_library
          (NumpyArray \<lparr>dtype = Float, shape = [1, 3, 3, 3], data = replicate 27 (Fin (1 / 2))\<rparr>)
          (Some ''THWC'') =
         bind (get_shifts example_library (NumpyArray avg_frame) (NumpyArray cropped))
           (\<lambda>(dx, dy). Inr (NumpyArray
              (recovered \<lparr>dtype = Float, shape = [1, 3, 3, 3], data = replicate 27 (Fin (1 / 2))\<rparr>
                 (rolled dy dx cropped))))"
    by auto
  have "item cropped [0, 0, 3] = Fin (1 / 2)" "item cropped [2, 2, 3] = Fin 0"
    using items it by simp_all
  with c run show ?thesis by blast
qed

section \<open>The round trip of compositing and recovery\<close>

subsection \<open>The operations with rounding\<close>

text \<open>
  With the rounding that changes nothing, the operations with rounding are the exact
  ones, and the recovery with rounding is \<open>recover_background\<close>.
\<close>

lemma rounded_identity: "rounded (\<lambda>x. x) f = f"
proof (intro ext)
  fix x y show "rounded (\<lambda>x. x) f x y = f x y"
    by (cases "f x y") (simp_all add: rounded_def)
qed

lemma exact_operations:
  "int_minus_fl (\<lambda>x. x) = int_minus" "true_divide_fl (\<lambda>x. x) = true_divide"
  by (intro ext, simp add: int_minus_fl_def int_minus_def true_divide_fl_def true_divide_def
        rounded_identity)+

lemma recover_background_fl_exact: "recover_background_fl (\<lambda>x. x) = recover_background"
  by (intro ext)
     (simp add: recover_background_fl_def recover_background_def rounded_identity exact_operations)

text \<open>
  On a video of shape \<open>(T, H, W, 3)\<close> and an RGBA image of shape \<open>(H, W, 4)\<close> the
  recovery and the composite with rounding are computed element by element.
\<close>

lemma promote_Float_left [simp]:
  "promote Float (promote Float d) = promote Float d"
  "store (promote Float d) v = v"
  by (simp_all add: promote_def store_def)

lemma recover_background_fl_arrays:
  assumes "shape v = [T, H, W, 3]" and "shape wm = [H, W, 4]" and "dtype wm = Float"
  shows "recover_background_fl rnd (NumpyArray v) (NumpyArray wm) = Inr (NumpyArray (recovered_fl rnd v wm))"
    and "recover_background_fl rnd (TorchTensor v) (TorchTensor wm) = Inr (TorchTensor (recovered_fl rnd v wm))"
proof -
  have "tabulate (promote (dtype v) Float) [T, H, W, 3]
          (\<lambda>ix. fclip 0 1
            (rounded rnd fdiv
              (item (tabulate (promote (dtype v) Float) [T, H, W, 3]
                 (\<lambda>ix. rounded rnd fsub (item v (bindex [T, H, W, 3] ix))
                   (item (tabulate Float [H, W, 3]
                      (\<lambda>ix. rounded rnd fmul
                        (item (tabulate Float [H, W, Suc 0] (\<lambda>ix. item wm [ix ! 0, ix ! Suc 0, 3]))
                           (bindex [H, W, Suc 0] ix))
                        (item (tabulate Float [H, W, 3] (item wm)) (bindex [H, W, 3] ix))))
                      (bindex [H, W, 3] ix))))
                 (bindex [T, H, W, 3] ix))
              (item (tabulate Float [H, W, Suc 0]
                 (\<lambda>ix. rounded rnd fsub (Fin 1) (item wm [ix ! 0, ix ! Suc 0, 3])))
                 (bindex [H, W, Suc 0] ix))))
        = recovered_fl rnd v wm"
    unfolding recovered_fl_def assms(1)
    by (intro tabulate_cong)
       (auto simp: valid_index4 item_tabulate bindex_def idx_keep inverse_blend_fl_def)
  then show "recover_background_fl rnd (NumpyArray v) (NumpyArray wm) = Inr (NumpyArray (recovered_fl rnd v wm))"
    and "recover_background_fl rnd (TorchTensor v) (TorchTensor wm) = Inr (TorchTensor (recovered_fl rnd v wm))"
    using assms
    by (simp_all add: recover_background_fl_def slice_rgb slice_alpha arith_def broadcast2_def
        broadcast_shapes_def shape_tabulate dtype_tabulate int_minus_fl_def true_divide_fl_def
        clip_def Let_def map_array_tabulate)
qed

lemma alpha_composite_fl_arrays:
  assumes "shape bg = [T, H, W, 3]" and "shape wm = [H, W, 4]" and "dtype wm = Float"
  shows "alpha_composite_fl rnd bg wm = Inr (composite_fl rnd bg wm)"
proof -
  have "tabulate (promote Float (dtype bg)) [T, H, W, 3]
     (\<lambda>ix. rounded rnd fadd
        (item (tabulate Float [H, W, 3]
           (\<lambda>ix. rounded rnd fmul
              (item (tabulate Float [H, W, Suc 0] (\<lambda>ix. item wm [ix ! 0, ix ! Suc 0, 3]))
                 (bindex [H, W, Suc 0] ix))
              (item (tabulate Float [H, W, 3] (item wm)) (bindex [H, W, 3] ix))))
           (bindex [H, W, 3] ix))
        (item (tabulate (promote Float (dtype bg)) [T, H, W, 3]
           (\<lambda>ix. rounded rnd fmul
              (item (tabulate Float [H, W, Suc 0]
                 (\<lambda>ix. rounded rnd fsub (Fin 1) (item wm [ix ! 0, ix ! Suc 0, 3])))
                 (bindex [H, W, Suc 0] ix))
              (item bg (bindex [T, H, W, 3] ix))))
           (bindex [T, H, W, 3] ix)))
    = composite_fl rnd bg wm"
    unfolding composite_fl_def assms(1)
    by (intro tabulate_cong)
       (auto simp: valid_index4 item_tabulate bindex_def idx_keep blend_fl_def)
  then show ?thesis
    using assms
    by (simp add: alpha_composite_fl_def slice_rgb slice_alpha arith_def broadcast2_def
        broadcast_shapes_def shape_tabulate dtype_tabulate int_minus_fl_def Let_def
        map_array_tabulate)
qed

subsection \<open>The rounding error of one element\<close>

text \<open>
  The error of the round trip on one element, in real numbers: \<open>a\<close> is the alpha, \<open>r\<close> the
  colour of the watermark and \<open>b\<close> the background, and every product, sum, difference and
  quotient of the composite and of the recovery is rounded. The divisor \<open>1 - a\<close> is at
  least \<open>1/100\<close>, so the quotient magnifies the error of the numerator about a hundred
  times at most, and the result stays well within \<open>1/10000\<close> of the background; the clip
  does not increase the distance to a number of \<open>[0, 1]\<close>. Every intermediate value is
  below 102 in magnitude, far from overflow.
\<close>

lemma rounding_bound:
  assumes "rounding u eta rnd" and "0 \<le> u" and "\<bar>x\<bar> \<le> M"
  shows "\<bar>rnd x - x\<bar> \<le> u * M + eta"
proof -
  have "\<bar>rnd x - x\<bar> \<le> u * \<bar>x\<bar> + eta" using assms(1) by (simp add: rounding_def)
  moreover have "u * \<bar>x\<bar> \<le> u * M" using assms(3,2) by (rule mult_left_mono)
  ultimately show ?thesis by linarith
qed

lemma round_trip_error_real:
  fixes a r b u eta :: real and rnd :: "real \<Rightarrow> real"
  assumes R: "rounding u eta rnd" and u: "0 \<le> u" "u \<le> 1 / 2 ^ 24"
    and e: "0 \<le> eta" "eta \<le> 1 / 2 ^ 100"
    and a: "0 \<le> a" "a \<le> 99 / 100" and r: "0 \<le> r" "r \<le> 1" and b: "0 \<le> b" "b \<le> 1"
  shows "rnd (1 - a) \<noteq> 0"
    and "\<bar>min (max (rnd (rnd (rnd (rnd (a * r) + rnd (rnd (1 - a) * b)) - rnd (a * r)) / rnd (1 - a))) 0) 1 - b\<bar>
           \<le> 1 / 10000"
proof -
  define p1 where "p1 = rnd (a * r)"
  define d where "d = rnd (1 - a)"
  define p2 where "p2 = rnd (d * b)"
  define c where "c = rnd (p1 + p2)"
  define n where "n = rnd (c - p1)"
  define q where "q = rnd (n / d)"
  have U: "u \<le> 6 / 100000000" using u(2) by simp
  have E: "eta \<le> 1 / 1000000000000"
  proof -
    have "(1::real) / 2 ^ 100 \<le> 1 / 1000000000000" by simp
    then show ?thesis using e(2) by linarith
  qed
  note rb = rounding_bound [OF R u(1)]
  have ar: "0 \<le> a * r" "a * r \<le> 1"
    using a r by (simp_all add: mult_le_one)
  then have "\<bar>a * r\<bar> \<le> 1" by linarith
  from rb [OF this] have e1: "\<bar>p1 - a * r\<bar> \<le> 61 / 1000000000"
    using U E unfolding p1_def by linarith
  have "\<bar>1 - a\<bar> \<le> 1" using a by linarith
  from rb [OF this] have e2: "\<bar>d - (1 - a)\<bar> \<le> 61 / 1000000000"
    using U E unfolding d_def by linarith
  have dlo: "99 / 10000 \<le> d" and dhi: "d \<le> 101 / 100" using e2 a by linarith+
  have db: "0 \<le> d * b" "d * b \<le> d"
    using dlo b by (simp_all add: mult_left_le)
  then have "\<bar>d * b\<bar> \<le> 101 / 100" using dhi by linarith
  from rb [OF this] have e3: "\<bar>p2 - d * b\<bar> \<le> 61 / 1000000000"
    using U E unfolding p2_def by linarith
  have s: "\<bar>p1 + p2\<bar> \<le> 21 / 10"
    using e1 e3 ar db dhi by linarith
  from rb [OF s] have e4: "\<bar>c - (p1 + p2)\<bar> \<le> 127 / 1000000000"
    using U E unfolding c_def by linarith
  have m: "\<bar>c - p1\<bar> \<le> 11 / 10"
    using e4 e3 db dhi by linarith
  from rb [OF m] have e5: "\<bar>n - (c - p1)\<bar> \<le> 67 / 1000000000"
    using U E unfolding n_def by linarith
  have num: "\<bar>n - d * b\<bar> \<le> 27 / 100000000"
    using e3 e4 e5 by linarith
  have dpos: "0 < d" using dlo by linarith
  have quot: "n / d - b = (n - d * b) / d"
    using dpos by (simp add: field_simps)
  have "\<bar>n / d - b\<bar> = \<bar>n - d * b\<bar> / d"
    unfolding quot using dpos by (simp add: abs_divide)
  also have "\<dots> \<le> (27 / 100000000) / (99 / 10000)"
    using num dpos dlo by (intro frac_le) simp_all
  also have "\<dots> \<le> 28 / 1000000" by simp
  finally have e6: "\<bar>n / d - b\<bar> \<le> 28 / 1000000" .
  then have "\<bar>n / d\<bar> \<le> 11 / 10" using b by linarith
  from rb [OF this] have e7: "\<bar>q - n / d\<bar> \<le> 67 / 1000000000"
    using U E unfolding q_def by linarith
  have "\<bar>q - b\<bar> \<le> 1 / 10000" using e6 e7 by linarith
  then have "\<bar>min (max q 0) 1 - b\<bar> \<le> 1 / 10000" using b by linarith
  then show "\<bar>min (max (rnd (rnd (rnd (rnd (a * r) + rnd (rnd (1 - a) * b)) - rnd (a * r)) / rnd (1 - a))) 0) 1 - b\<bar>
           \<le> 1 / 10000"
    unfolding q_def n_def c_def p2_def d_def p1_def .
  show "rnd (1 - a) \<noteq> 0" using dpos unfolding d_def by simp
qed

lemma round_trip_error:
  assumes "rounding u eta rnd" and "0 \<le> u" and "u \<le> 1 / 2 ^ 24"
    and "0 \<le> eta" and "eta \<le> 1 / 2 ^ 100"
    and "0 \<le> a" and "a \<le> 99 / 100" and "in_unit rgb" and "in_unit b"
  shows "\<exists>recovered_value background_value.
           inverse_blend_fl rnd (blend_fl rnd b rgb (Fin a)) rgb (Fin a) = Fin recovered_value
         \<and> b = Fin background_value
         \<and> \<bar>recovered_value - background_value\<bar> \<le> 1 / 10000"
proof -
  from assms(8) obtain r where r: "rgb = Fin r" "0 \<le> r" "r \<le> 1"
    by (cases rgb) (simp_all add: in_unit_def)
  from assms(9) obtain q where q: "b = Fin q" "0 \<le> q" "q \<le> 1"
    by (cases b) (simp_all add: in_unit_def)
  note real = round_trip_error_real [OF assms(1-7) r(2,3) q(2,3)]
  have "inverse_blend_fl rnd (blend_fl rnd b rgb (Fin a)) rgb (Fin a) =
          Fin (min (max (rnd (rnd (rnd (rnd (a * r) + rnd (rnd (1 - a) * q)) - rnd (a * r))
                              / rnd (1 - a))) 0) 1)"
    using real(1) by (simp add: r(1) q(1) inverse_blend_fl_def blend_fl_def rounded_def fsub_def)
  then show ?thesis using real(2) q(1) by blast
qed

text \<open>A shifted watermark has the values of the watermark, at other pixels.\<close>

lemma blendable_watermark_roll:
  assumes "blendable_watermark H W wm"
  shows "blendable_watermark H W (rolled dy dx wm)"
proof -
  have s: "shape wm = [H, W, 4]" using assms by (simp add: blendable_watermark_def)
  have "(\<forall>c<3. in_unit (item (rolled dy dx wm) [y, x, c]))
        \<and> (\<exists>a. item (rolled dy dx wm) [y, x, 3] = Fin a \<and> 0 \<le> a \<and> a \<le> 99 / 100)"
    if "y < H" "x < W" for y x
  proof -
    have "nat ((int y - dy) mod int H) < H" "nat ((int x - dx) mod int W) < W"
      using that by (simp_all add: nat_mod_less)
    then show ?thesis
      using assms that by (simp add: roll_axes_01(5) [OF s] blendable_watermark_def)
  qed
  then show ?thesis
    using assms by (simp add: blendable_watermark_def roll_axes_01 [OF s])
qed

subsection \<open>The round trip\<close>

text \<open>
  Claim C2, as amended. Round trip of compositing and recovery in floating point: for
  every background with values in \<open>[0, 1]\<close>, every watermark with colours in \<open>[0, 1]\<close> and
  alpha in \<open>[0, 0.99]\<close>, and every integer shift \<open>(dx, dy)\<close>, let the composite
  \<open>alpha * rgb_shifted + (1 - alpha) * background\<close> and the recovery be computed with every
  operation rounded, by any rounding of unit roundoff at most \<open>2^-24\<close> (single precision
  or better) and underflow error at most \<open>2^-100\<close>. Then the recovery of the composite
  with the shifted watermark returns, in either library, a video of the background's shape
  whose every element is a number within \<open>1/10000\<close> of the background's. Nothing is
  stated of the detection: it returns the position of the greatest cross-correlation, which
  need not be the placed shift; and nothing is stated for alpha between \<open>0.99\<close> and 1,
  where the division by \<open>1 - alpha\<close> magnifies the rounding error without bound.
\<close>

theorem composite_round_trip:
  assumes "rounding u eta rnd" and "0 \<le> u" and "u \<le> 1 / 2 ^ 24"
    and "0 \<le> eta" and "eta \<le> 1 / 2 ^ 100"
    and "shape background = [T, H, W, 3]" and "wf background"
    and "\<forall>e\<in>set (data background). in_unit e"
    and "blendable_watermark H W watermark"
    and "t < T" and "y < H" and "x < W" and "c < 3"
  shows "\<exists>shifted composite out recovered_value background_value.
      roll (dy, dx) (0, 1) watermark = Inr shifted
    \<and> alpha_composite_fl rnd background shifted = Inr composite
    \<and> recover_background_fl rnd (NumpyArray composite) (NumpyArray shifted) = Inr (NumpyArray out)
    \<and> recover_background_fl rnd (TorchTensor composite) (TorchTensor shifted) = Inr (TorchTensor out)
    \<and> shape out = [T, H, W, 3]
    \<and> item out [t, y, x, c] = Fin recovered_value
    \<and> item background [t, y, x, c] = Fin background_value
    \<and> \<bar>recovered_value - background_value\<bar> \<le> 1 / 10000"
proof -
  let ?s = "rolled dy dx watermark"
  let ?c = "composite_fl rnd background ?s"
  let ?ix = "[t, y, x, c]"
  have w: "shape watermark = [H, W, 4]" using assms(9) by (simp add: blendable_watermark_def)
  have u: "blendable_watermark H W ?s" using assms(9) by (rule blendable_watermark_roll)
  then have s: "shape ?s = [H, W, 4]" "dtype ?s = Float"
    by (simp_all add: blendable_watermark_def)
  have c: "shape ?c = [T, H, W, 3]"
    using assms(6) by (simp add: composite_fl_def shape_tabulate)
  have v: "valid_index [T, H, W, 3] ?ix" using assms(10-13) by simp
  then have b: "in_unit (item background ?ix)"
    using assms(6-8) item_in_data [of background ?ix] by simp
  from u assms(11,12) have "(\<forall>c<3. in_unit (item ?s [y, x, c]))
      \<and> (\<exists>a. item ?s [y, x, 3] = Fin a \<and> 0 \<le> a \<and> a \<le> 99 / 100)"
    unfolding blendable_watermark_def by blast
  with assms(13) obtain a where a: "item ?s [y, x, 3] = Fin a" "0 \<le> a" "a \<le> 99 / 100"
    and f: "in_unit (item ?s [y, x, c])"
    by blast
  have ci: "item ?c ?ix = blend_fl rnd (item background ?ix) (item ?s [y, x, c]) (Fin a)"
    using v a(1) assms(6) by (simp add: composite_fl_def item_tabulate)
  have oi: "item (recovered_fl rnd ?c ?s) ?ix =
              inverse_blend_fl rnd (item ?c ?ix) (item ?s [y, x, c]) (Fin a)"
    using v a(1) c by (simp add: recovered_fl_def item_tabulate)
  from round_trip_error [OF assms(1-5) a(2,3) f b]
  obtain rv bv where "item (recovered_fl rnd ?c ?s) ?ix = Fin rv"
    and "item background ?ix = Fin bv" and "\<bar>rv - bv\<bar> \<le> 1 / 10000"
    unfolding oi ci by blast
  moreover have "shape (recovered_fl rnd ?c ?s) = [T, H, W, 3]"
    using c by (simp add: recovered_fl_def shape_tabulate)
  ultimately show ?thesis
    using roll_axes_01(1) [OF w, of dy dx] alpha_composite_fl_arrays [OF assms(6) s]
      recover_background_fl_arrays [OF c s]
    by blast
qed

text \<open>
  The example rounding is within the bounds of double precision: it moves \<open>1 - 2^-54\<close> by
  \<open>2^-54\<close> and no other number.
\<close>

lemma example_rounding_standard: "rounding (1 / 2 ^ 53) 0 example_rounding"
  by (simp add: rounding_def example_rounding_def)

theorem composite_round_trip_witness:
  "\<exists>shifted composite out recovered_value background_value.
      roll (0, 1) (0, 1) \<lparr>dtype = Float, shape = [1, 2, 4],
          data = [Fin 1, Fin 0, Fin 0, Fin (1 / 2), Fin 0, Fin 0, Fin 1, Fin 0]\<rparr> = Inr shifted
    \<and> alpha_composite_fl example_rounding \<lparr>dtype = Float, shape = [1, 1, 2, 3],
          data = [Fin 0, Fin (1 / 4), Fin (1 / 2), Fin (3 / 4), Fin 1, Fin (1 / 8)]\<rparr> shifted
        = Inr composite
    \<and> recover_background_fl example_rounding (NumpyArray composite) (NumpyArray shifted) =
        Inr (NumpyArray out)
    \<and> recover_background_fl example_rounding (TorchTensor composite) (TorchTensor shifted) =
        Inr (TorchTensor out)
    \<and> shape out = [1, 1, 2, 3]
    \<and> item out [0, 0, 1, 2] = Fin recovered_value
    \<and> item \<lparr>dtype = Float, shape = [1, 1, 2, 3],
          data = [Fin 0, Fin (1 / 4), Fin (1 / 2), Fin (3 / 4), Fin 1, Fin (1 / 8)]\<rparr> [0, 0, 1, 2]
        = Fin background_value
    \<and> \<bar>recovered_value - background_value\<bar> \<le> 1 / 10000"
proof -
  have half: "\<exists>a::real. 1 / 2 = a \<and> 0 \<le> a \<and> a \<le> 99 / 100" by (rule exI [of _ "1 / 2"]) simp
  have zero: "\<exists>a::real. 0 = a \<and> 0 \<le> a \<and> a \<le> 99 / 100" by (rule exI [of _ 0]) simp
  have u: "blendable_watermark 1 2 \<lparr>dtype = Float, shape = [1, 2, 4],
          data = [Fin 1, Fin 0, Fin 0, Fin (1 / 2), Fin 0, Fin 0, Fin 1, Fin 0]\<rparr>"
    using half zero
    by (simp add: blendable_watermark_def item_def in_unit_def less_Suc_eq numeral_3_eq_3
        numeral_2_eq_2)
  show ?thesis
    using composite_round_trip [OF example_rounding_standard _ _ _ _ _ _ _ u,
        where background = "\<lparr>dtype = Float, shape = [1, 1, 2, 3],
          data = [Fin 0, Fin (1 / 4), Fin (1 / 2), Fin (3 / 4), Fin 1, Fin (1 / 8)]\<rparr>"
        and T = 1 and t = 0 and y = 0 and x = 1 and c = 2 and dy = 0 and dx = 1]
    by (simp add: wf_def in_unit_def)
qed

subsection \<open>Where the round trip fails\<close>

text \<open>
  A watermark whose two pixels are equal, on a frame of one row and two columns, is the
  same image when placed at \<open>(0, 0)\<close> and at \<open>(-1, 0)\<close>.
\<close>

lemma invariant_placement:
  "roll (0, 0) (0, 1)
     \<lparr>dtype = Float, shape = [1, 2, 4],
        data = [Fin 1, Fin 1, Fin 1, Fin (1 / 2), Fin 1, Fin 1, Fin 1, Fin (1 / 2)]\<rparr>
   = Inr \<lparr>dtype = Float, shape = [1, 2, 4],
        data = [Fin 1, Fin 1, Fin 1, Fin (1 / 2), Fin 1, Fin 1, Fin 1, Fin (1 / 2)]\<rparr>"
  "roll (0, - 1) (0, 1)
     \<lparr>dtype = Float, shape = [1, 2, 4],
        data = [Fin 1, Fin 1, Fin 1, Fin (1 / 2), Fin 1, Fin 1, Fin 1, Fin (1 / 2)]\<rparr>
   = Inr \<lparr>dtype = Float, shape = [1, 2, 4],
        data = [Fin 1, Fin 1, Fin 1, Fin (1 / 2), Fin 1, Fin 1, Fin 1, Fin (1 / 2)]\<rparr>"
  by (simp_all add: roll_def roll_axis_def eval_array)

text \<open>
  A watermark of alpha \<open>1 - 2^-53\<close> and colour 1 on a background of value \<open>1/2\<close>, in double
  precision: \<open>alpha * rgb = 1 - 2^-53\<close>, \<open>1 - alpha = 2^-53\<close> and
  \<open>(1 - alpha) * background = 2^-54\<close> are numbers of double precision and are not changed by
  the rounding; their sum \<open>1 - 2^-54\<close> lies halfway between \<open>1 - 2^-53\<close> and 1 and is
  rounded to 1 (to even). The composite is 1, and the recovery computes
  \<open>(1 - (1 - 2^-53)) / 2^-53 = 1\<close>, again without a change by the rounding. On these
  values the example rounding is the rounding of double precision.
\<close>

lemma nearly_opaque_composite:
  "alpha_composite_fl example_rounding
     \<lparr>dtype = Float, shape = [1, 1, 1, 3], data = [Fin (1 / 2), Fin (1 / 2), Fin (1 / 2)]\<rparr>
     \<lparr>dtype = Float, shape = [1, 1, 4], data = [Fin 1, Fin 1, Fin 1, Fin (1 - 1 / 2 ^ 53)]\<rparr>
   = Inr \<lparr>dtype = Float, shape = [1, 1, 1, 3], data = [Fin 1, Fin 1, Fin 1]\<rparr>"
  by (simp add: alpha_composite_fl_def slice_axis2_def arith_def int_minus_fl_def rounded_def
      example_rounding_def broadcast2_def broadcast_shapes_def bindex_def promote_def store_def
      fsub_def Let_def eval_array)

lemma nearly_opaque_recovery:
  "recover_background_fl example_rounding
     (NumpyArray \<lparr>dtype = Float, shape = [1, 1, 1, 3], data = [Fin 1, Fin 1, Fin 1]\<rparr>)
     (NumpyArray \<lparr>dtype = Float, shape = [1, 1, 4],
        data = [Fin 1, Fin 1, Fin 1, Fin (1 - 1 / 2 ^ 53)]\<rparr>)
   = Inr (NumpyArray \<lparr>dtype = Float, shape = [1, 1, 1, 3], data = [Fin 1, Fin 1, Fin 1]\<rparr>)"
  by (simp add: recover_background_fl_def slice_axis2_def arith_def int_minus_fl_def rounded_def
      true_divide_fl_def clip_def
      example_rounding_def broadcast2_def broadcast_shapes_def bindex_def promote_def store_def
      fsub_def Let_def eval_array)

text \<open>
  Claim C2 as stated fails in both halves. The recovery: with alpha \<open>1 - 2^-53\<close>, which is
  less than 1, the background \<open>1/2\<close> is recovered as 1, an error of \<open>1/2\<close>. The detection: the
  watermark of two equal pixels gives the same composite when placed at \<open>(0, 0)\<close> and at
  \<open>(-1, 0)\<close>, so no implementation of the library routines and no rounding makes the
  detection return \<open>(0, 0)\<close> in the first case and \<open>(-1, 0)\<close> in the second.
\<close>

theorem round_trip_fails:
  "roll (0, 0) (0, 1)
     \<lparr>dtype = Float, shape = [1, 1, 4], data = [Fin 1, Fin 1, Fin 1, Fin (1 - 1 / 2 ^ 53)]\<rparr>
   = Inr \<lparr>dtype = Float, shape = [1, 1, 4], data = [Fin 1, Fin 1, Fin 1, Fin (1 - 1 / 2 ^ 53)]\<rparr>
   \<and> alpha_composite_fl example_rounding
     \<lparr>dtype = Float, shape = [1, 1, 1, 3], data = [Fin (1 / 2), Fin (1 / 2), Fin (1 / 2)]\<rparr>
     \<lparr>dtype = Float, shape = [1, 1, 4], data = [Fin 1, Fin 1, Fin 1, Fin (1 - 1 / 2 ^ 53)]\<rparr>
   = Inr \<lparr>dtype = Float, shape = [1, 1, 1, 3], data = [Fin 1, Fin 1, Fin 1]\<rparr>
   \<and> recover_background_fl example_rounding
     (NumpyArray \<lparr>dtype = Float, shape = [1, 1, 1, 3], data = [Fin 1, Fin 1, Fin 1]\<rparr>)
     (NumpyArray \<lparr>dtype = Float, shape = [1, 1, 4],
        data = [Fin 1, Fin 1, Fin 1, Fin (1 - 1 / 2 ^ 53)]\<rparr>)
   = Inr (NumpyArray \<lparr>dtype = Float, shape = [1, 1, 1, 3], data = [Fin 1, Fin 1, Fin 1]\<rparr>)
   \<and> \<not> (\<exists>lib rnd.
        detect_placed rnd lib
          \<lparr>dtype = Float, shape = [1, 1, 2, 3],
             data = [Fin 0, Fin 0, Fin 0, Fin 0, Fin 0, Fin 0]\<rparr>
          \<lparr>dtype = Float, shape = [1, 2, 4],
             data = [Fin 1, Fin 1, Fin 1, Fin (1 / 2), Fin 1, Fin 1, Fin 1, Fin (1 / 2)]\<rparr>
          0 0 = Inr (0, 0)
      \<and> detect_placed rnd lib
          \<lparr>dtype = Float, shape = [1, 1, 2, 3],
             data = [Fin 0, Fin 0, Fin 0, Fin 0, Fin 0, Fin 0]\<rparr>
          \<lparr>dtype = Float, shape = [1, 2, 4],
             data = [Fin 1, Fin 1, Fin 1, Fin (1 / 2), Fin 1, Fin 1, Fin 1, Fin (1 / 2)]\<rparr>
          (- 1) 0 = Inr (- 1, 0))"
proof -
  have "roll (0, 0) (0, 1)
     \<lparr>dtype = Float, shape = [1, 1, 4], data = [Fin 1, Fin 1, Fin 1, Fin (1 - 1 / 2 ^ 53)]\<rparr>
   = Inr \<lparr>dtype = Float, shape = [1, 1, 4], data = [Fin 1, Fin 1, Fin 1, Fin (1 - 1 / 2 ^ 53)]\<rparr>"
    by (simp add: roll_def roll_axis_def eval_array)
  moreover have "\<not> (\<exists>lib rnd.
        detect_placed rnd lib
          \<lparr>dtype = Float, shape = [1, 1, 2, 3],
             data = [Fin 0, Fin 0, Fin 0, Fin 0, Fin 0, Fin 0]\<rparr>
          \<lparr>dtype = Float, shape = [1, 2, 4],
             data = [Fin 1, Fin 1, Fin 1, Fin (1 / 2), Fin 1, Fin 1, Fin 1, Fin (1 / 2)]\<rparr>
          0 0 = Inr (0, 0)
      \<and> detect_placed rnd lib
          \<lparr>dtype = Float, shape = [1, 1, 2, 3],
             data = [Fin 0, Fin 0, Fin 0, Fin 0, Fin 0, Fin 0]\<rparr>
          \<lparr>dtype = Float, shape = [1, 2, 4],
             data = [Fin 1, Fin 1, Fin 1, Fin (1 / 2), Fin 1, Fin 1, Fin 1, Fin (1 / 2)]\<rparr>
          (- 1) 0 = Inr (- 1, 0))"
    unfolding detect_placed_def invariant_placement by auto
  ultimately show ?thesis
    using nearly_opaque_composite nearly_opaque_recovery by blast
qed

end
